theory Spec2Isabelle
  imports Complex_Main
begin

section \<open>The task-tracking API of \<^verbatim>\<open>src/backend/back.js\<close>\<close>

text \<open>
  The server is one Express module: two unauthenticated routes (register, login), a
  middleware \<^verbatim>\<open>authenticate\<close> and three task routes behind it. Every handler is
  modelled as a function from the store and the request to a response and the new store.

  What the module imports is not part of the repository and is modelled as follows.
  \<^item> The document store behind mongoose is a record of two lists (insertion order),
    a flag telling whether the connection is up, a counter from which \<^verbatim>\<open>_id\<close> values
    are drawn, and the list of the calls made on the two models so far. A call on a store
    that is not connected is rejected, which the handlers answer with 500.
  \<^item> bcryptjs, the compact serialisation and the signature of jsonwebtoken, the
    string-to-ObjectId cast of mongoose and what a filter on an undefined \<^verbatim>\<open>userId\<close>
    selects are parameters (the record \<open>libs\<close>): the theorems hold for every choice
    of them, and so do the casts mongoose applies to a \<^verbatim>\<open>username\<close> that is not a string.
    \<^verbatim>\<open>jwt.verify\<close> is called without options: the shape test, the signature and the
    checks of \<^verbatim>\<open>nbf\<close> and \<^verbatim>\<open>exp\<close> are modelled. The middleware is modelled together
    with the list of the calls it makes to \<^verbatim>\<open>jwt.verify\<close>.
  \<^item> The fields \<^verbatim>\<open>username\<close> and \<^verbatim>\<open>password\<close> of a request body are any JSON
    values or absent, the field \<^verbatim>\<open>text\<close> is a string or absent; absent is \<open>None\<close>.
  \<^item> Time is the number of seconds since the epoch, as jsonwebtoken reads the clock.
  Calls to \<^verbatim>\<open>console.log\<close> are left out.
\<close>

subsection \<open>Data model\<close>

type_synonym objectid = nat

text \<open>JSON values, as they arrive in a request body or in the payload of a token.\<close>

datatype json =
    JNull
  | JBool bool
  | JNum real
  | JStr string
  | JArr "json list"
  | JObj "(string \<times> json) list"

text \<open>\<^verbatim>\<open>UserSchema\<close> and \<^verbatim>\<open>TaskSchema\<close>. \<^verbatim>\<open>userId\<close> is not required by the schema, so a
  task may have none.\<close>

record user =
  user_id :: objectid
  username :: string
  password :: string

record task =
  task_id :: objectid
  task_text :: string
  completed :: bool
  userId :: "objectid option"

text \<open>The calls the handlers make on the two models, in the order they are made.\<close>

datatype db_op =
    User_findOne_op json
  | User_save_op json
  | Task_find_op "objectid option"
  | Task_save_op "objectid option"
  | Task_findOneAndDelete_op string "objectid option"

fun is_write :: "db_op \<Rightarrow> bool" where
  "is_write (User_findOne_op _) = False"
| "is_write (User_save_op _) = True"
| "is_write (Task_find_op _) = False"
| "is_write (Task_save_op _) = True"
| "is_write (Task_findOneAndDelete_op _ _) = True"

record db =
  connected :: bool
  users :: "user list"
  tasks :: "task list"
  next_id :: objectid
  calls :: "db_op list"

text \<open>What a call into a package throws. Only a server error carries a \<^verbatim>\<open>code\<close>;
  11000 is the duplicate-key error of a unique index. \<open>IllegalArguments\<close> is what
  bcryptjs throws for a password that is not a string.\<close>

datatype thrown =
    MongoServerError nat
  | ConnectionError
  | CastError
  | ValidationError
  | IllegalArguments

fun err_code :: "thrown \<Rightarrow> nat option" where
  "err_code (MongoServerError c) = Some c"
| "err_code ConnectionError = None"
| "err_code CastError = None"
| "err_code ValidationError = None"
| "err_code IllegalArguments = None"

text \<open>The payload of a token: \<^verbatim>\<open>{userId, iat, exp, nbf}\<close>, each field possibly
  absent; a \<^verbatim>\<open>userId\<close> that is present is an ObjectId, the other three are any JSON
  values.\<close>

record jwt_payload =
  pl_userId :: "objectid option"
  pl_iat :: "json option"
  pl_exp :: "json option"
  pl_nbf :: "json option"

datatype jwt_error = JsonWebTokenError | NotBeforeError | TokenExpiredError

text \<open>The imported packages. \<open>bcrypt_hash password salt\<close> is the salted hash of a
  string without its leading \<^verbatim>\<open>$\<close>, \<open>bcrypt_compare password hash\<close> the comparison of
  a string with a hash; \<open>jws_sign payload secret\<close> is the compact serialisation with its
  signature, \<open>jws_decode\<close> reads the payload of a serialisation back,
  \<open>jws_verify token secret\<close> checks the signature; \<open>castObjectId\<close> is \<open>None\<close> where
  mongoose raises a cast error; \<open>matches_undefined\<close> says which tasks a filter
  \<^verbatim>\<open>{userId: undefined}\<close> selects. For a \<^verbatim>\<open>username\<close> that is not a string,
  \<open>castString\<close> is the string mongoose stores (\<open>None\<close> where the cast fails) and
  \<open>username_query\<close> the users a filter \<^verbatim>\<open>{username: v}\<close> selects (\<open>None\<close> where the
  query is rejected).\<close>

record libs =
  bcrypt_hash :: "string \<Rightarrow> string \<Rightarrow> string"
  bcrypt_compare :: "string \<Rightarrow> string \<Rightarrow> bool"
  jws_sign :: "jwt_payload \<Rightarrow> string \<Rightarrow> string"
  jws_decode :: "string \<Rightarrow> jwt_payload option"
  jws_verify :: "string \<Rightarrow> string \<Rightarrow> bool"
  castObjectId :: "string \<Rightarrow> objectid option"
  matches_undefined :: "task \<Rightarrow> bool"
  castString :: "json \<Rightarrow> string option"
  username_query :: "json \<Rightarrow> (user \<Rightarrow> bool) option"

text \<open>The process environment and the two things a request reads from outside: the
  clock and the salt bcrypt draws.\<close>

record env =
  env_SECRET_KEY :: "string option"
  clock :: nat
  salt :: string

record request =
  headers_authorization :: "string option"
  body_username :: "json option"
  body_password :: "json option"
  body_text :: "string option"
  params_id :: string
  req_userId :: "objectid option"

datatype res_body =
    Error string
  | Message string
  | Token string
  | TaskList "task list"
  | TaskDoc task
  | Plain string

record response =
  status :: nat
  body :: res_body

subsection \<open>JavaScript and configuration\<close>

text \<open>\<^verbatim>\<open>!x\<close> for a field that is a string or absent: true for \<^verbatim>\<open>undefined\<close> and for
  the empty string.\<close>

definition falsy :: "string option \<Rightarrow> bool" where
  "falsy x = (case x of None \<Rightarrow> True | Some s \<Rightarrow> s = [])"

definition str :: "string option \<Rightarrow> string" where
  "str x = (case x of None \<Rightarrow> [] | Some s \<Rightarrow> s)"

text \<open>\<^verbatim>\<open>!x\<close> for a field that is any JSON value or absent: true for \<^verbatim>\<open>undefined\<close>,
  \<^verbatim>\<open>null\<close>, \<^verbatim>\<open>false\<close>, zero and the empty string.\<close>

fun truthy :: "json \<Rightarrow> bool" where
  "truthy JNull = False"
| "truthy (JBool b) = b"
| "truthy (JNum r) = (r \<noteq> 0)"
| "truthy (JStr s) = (s \<noteq> [])"
| "truthy (JArr vs) = True"
| "truthy (JObj fs) = True"

definition falsy_json :: "json option \<Rightarrow> bool" where
  "falsy_json x = (case x of None \<Rightarrow> True | Some v \<Rightarrow> \<not> truthy v)"

definition js_value :: "json option \<Rightarrow> json" where
  "js_value x = (case x of None \<Rightarrow> JNull | Some v \<Rightarrow> v)"

text \<open>\<^verbatim>\<open>process.env.SECRET_KEY || "your_secret_key"\<close>.\<close>

definition SECRET_KEY :: "env \<Rightarrow> string" where
  "SECRET_KEY E = (if falsy (env_SECRET_KEY E) then ''your_secret_key'' else str (env_SECRET_KEY E))"

definition json :: "nat \<Rightarrow> res_body \<Rightarrow> response" where
  "json code b = \<lparr>status = code, body = b\<rparr>"

subsection \<open>The store\<close>

definition called :: "db_op \<Rightarrow> db \<Rightarrow> db" where
  "called c s = s\<lparr>calls := calls s @ [c]\<rparr>"

text \<open>A filter \<^verbatim>\<open>{userId: v}\<close>.\<close>

definition owner_matches :: "libs \<Rightarrow> objectid option \<Rightarrow> task \<Rightarrow> bool" where
  "owner_matches L v t = (case v of None \<Rightarrow> matches_undefined L t | Some a \<Rightarrow> userId t = Some a)"

text \<open>The users a filter \<^verbatim>\<open>{username: v}\<close> selects, and the string stored for a
  \<^verbatim>\<open>username\<close> \<open>v\<close>.\<close>

definition username_filter :: "libs \<Rightarrow> json \<Rightarrow> (user \<Rightarrow> bool) option" where
  "username_filter L v =
     (case v of JStr name \<Rightarrow> Some (\<lambda>u. username u = name) | _ \<Rightarrow> username_query L v)"

definition cast_username :: "libs \<Rightarrow> json \<Rightarrow> string option" where
  "cast_username L v = (case v of JStr name \<Rightarrow> Some name | _ \<Rightarrow> castString L v)"

text \<open>\<^verbatim>\<open>User.findOne({username})\<close>.\<close>

definition User_findOne :: "libs \<Rightarrow> json \<Rightarrow> db \<Rightarrow> (thrown + user option) \<times> db" where
  "User_findOne L v s =
     (case username_filter L v of
        None \<Rightarrow> (Inl CastError, called (User_findOne_op v) s)
      | Some P \<Rightarrow>
          if connected s then (Inr (find P (users s)), called (User_findOne_op v) s)
          else (Inl ConnectionError, called (User_findOne_op v) s))"

text \<open>\<^verbatim>\<open>new User({username, password}).save()\<close>: both fields are \<^verbatim>\<open>required\<close>, which
  is validated before the store is reached, and \<^verbatim>\<open>username\<close> is \<^verbatim>\<open>unique\<close>.\<close>

definition User_save :: "libs \<Rightarrow> json \<Rightarrow> string \<Rightarrow> db \<Rightarrow> (thrown + user) \<times> db" where
  "User_save L v hashed s =
     (case cast_username L v of
        None \<Rightarrow> (Inl ValidationError, called (User_save_op v) s)
      | Some name \<Rightarrow>
          if name = [] \<or> hashed = [] then (Inl ValidationError, called (User_save_op v) s)
          else if \<not> connected s then (Inl ConnectionError, called (User_save_op v) s)
          else if name \<in> username ` set (users s)
          then (Inl (MongoServerError 11000), called (User_save_op v) s)
          else (let u = \<lparr>user_id = next_id s, username = name, password = hashed\<rparr>
                in (Inr u, called (User_save_op v)
                             (s\<lparr>users := users s @ [u], next_id := Suc (next_id s)\<rparr>))))"

text \<open>\<^verbatim>\<open>Task.find({userId})\<close>.\<close>

definition Task_find :: "libs \<Rightarrow> objectid option \<Rightarrow> db \<Rightarrow> (thrown + task list) \<times> db" where
  "Task_find L v s =
     (if connected s
      then (Inr (filter (owner_matches L v) (tasks s)), called (Task_find_op v) s)
      else (Inl ConnectionError, called (Task_find_op v) s))"

text \<open>\<^verbatim>\<open>new Task({text, userId}).save()\<close>; \<^verbatim>\<open>completed\<close> defaults to false.\<close>

definition Task_save :: "string \<Rightarrow> objectid option \<Rightarrow> db \<Rightarrow> (thrown + task) \<times> db" where
  "Task_save txt v s =
     (if \<not> connected s then (Inl ConnectionError, called (Task_save_op v) s)
      else (let t = \<lparr>task_id = next_id s, task_text = txt, completed = False, userId = v\<rparr>
            in (Inr t, called (Task_save_op v) (s\<lparr>tasks := tasks s @ [t], next_id := Suc (next_id s)\<rparr>))))"

text \<open>\<^verbatim>\<open>Task.findOneAndDelete({_id, userId})\<close>: the first task that matches both
  conditions is removed and returned.\<close>

definition Task_findOneAndDelete ::
  "libs \<Rightarrow> string \<Rightarrow> objectid option \<Rightarrow> db \<Rightarrow> (thrown + task option) \<times> db" where
  "Task_findOneAndDelete L i v s =
     (case castObjectId L i of
        None \<Rightarrow> (Inl CastError, called (Task_findOneAndDelete_op i v) s)
      | Some tid \<Rightarrow>
          if \<not> connected s then (Inl ConnectionError, called (Task_findOneAndDelete_op i v) s)
          else (case find (\<lambda>t. task_id t = tid \<and> owner_matches L v t) (tasks s) of
                  None \<Rightarrow> (Inr None, called (Task_findOneAndDelete_op i v) s)
                | Some t \<Rightarrow>
                    (Inr (Some t),
                     called (Task_findOneAndDelete_op i v) (s\<lparr>tasks := remove1 t (tasks s)\<rparr>))))"

subsection \<open>bcryptjs\<close>

text \<open>\<^verbatim>\<open>bcrypt.hash(password, 10)\<close> and \<^verbatim>\<open>bcrypt.compare(password, hash)\<close>: both throw
  for a password that is not a string. A hash starts with \<^verbatim>\<open>$\<close>.\<close>

definition bcrypt_hash_js :: "libs \<Rightarrow> json \<Rightarrow> string \<Rightarrow> thrown + string" where
  "bcrypt_hash_js L v sl =
     (case v of JStr pw \<Rightarrow> Inr (CHR ''$'' # bcrypt_hash L pw sl) | _ \<Rightarrow> Inl IllegalArguments)"

definition bcrypt_compare_js :: "libs \<Rightarrow> json \<Rightarrow> string \<Rightarrow> thrown + bool" where
  "bcrypt_compare_js L v h =
     (case v of JStr pw \<Rightarrow> Inr (bcrypt_compare L pw h) | _ \<Rightarrow> Inl IllegalArguments)"

subsection \<open>jsonwebtoken\<close>

text \<open>The shape test of the serialisation: three segments separated by two dots, each
  of letters, digits, \<^verbatim>\<open>-\<close> and \<^verbatim>\<open>_\<close>, the first two not empty.\<close>

definition b64url_char :: "char \<Rightarrow> bool" where
  "b64url_char c =
     (c \<in> set (''abcdefghijklmnopqrstuvwxyz'' @ ''ABCDEFGHIJKLMNOPQRSTUVWXYZ'' @ ''0123456789-_''))"

fun split_on :: "char \<Rightarrow> string \<Rightarrow> string list" where
  "split_on d [] = [] # []"
| "split_on d (c # cs) =
     (if c = d then [] # split_on d cs
      else (case split_on d cs of [] \<Rightarrow> [c] # [] | p # ps \<Rightarrow> (c # p) # ps))"

definition isValidJws :: "string \<Rightarrow> bool" where
  "isValidJws s =
     (case split_on (CHR ''.'') s of
        [h, p, g] \<Rightarrow> h \<noteq> [] \<and> p \<noteq> [] \<and> list_all b64url_char h \<and> list_all b64url_char p
                     \<and> list_all b64url_char g
      | _ \<Rightarrow> False)"

text \<open>\<^verbatim>\<open>jwt.sign(payload, secret, {expiresIn})\<close> at time \<open>now\<close>: the payload gets the issue
  time and the expiry.\<close>

definition jwt_sign :: "libs \<Rightarrow> jwt_payload \<Rightarrow> string \<Rightarrow> nat \<Rightarrow> nat \<Rightarrow> string" where
  "jwt_sign L p secret expiresIn now =
     jws_sign L (p\<lparr>pl_iat := Some (JNum (real now)),
                  pl_exp := Some (JNum (real (now + expiresIn)))\<rparr>) secret"

text \<open>The check of \<^verbatim>\<open>nbf\<close>: present and not a number is an error, a number after the
  clock is an error. The check of \<^verbatim>\<open>exp\<close>: present and not a number is an error, a
  number not after the clock is an error.\<close>

fun check_nbf :: "json option \<Rightarrow> nat \<Rightarrow> jwt_error option" where
  "check_nbf None now = None"
| "check_nbf (Some (JNum n)) now = (if n > real now then Some NotBeforeError else None)"
| "check_nbf (Some v) now = Some JsonWebTokenError"

fun check_exp :: "json option \<Rightarrow> nat \<Rightarrow> jwt_error option" where
  "check_exp None now = None"
| "check_exp (Some (JNum e)) now = (if real now \<ge> e then Some TokenExpiredError else None)"
| "check_exp (Some v) now = Some JsonWebTokenError"

text \<open>\<^verbatim>\<open>jwt.verify(token, secret)\<close> at time \<open>now\<close>: shape, payload, signature,
  \<^verbatim>\<open>nbf\<close>, \<^verbatim>\<open>exp\<close>, in this order. A token without expiry does not expire.\<close>

definition jwt_verify :: "libs \<Rightarrow> string \<Rightarrow> string \<Rightarrow> nat \<Rightarrow> jwt_error + jwt_payload" where
  "jwt_verify L token secret now =
     (if \<not> isValidJws token then Inl JsonWebTokenError
      else (case jws_decode L token of
              None \<Rightarrow> Inl JsonWebTokenError
            | Some p \<Rightarrow>
                if \<not> jws_verify L token secret then Inl JsonWebTokenError
                else (case check_nbf (pl_nbf p) now of
                        Some err \<Rightarrow> Inl err
                      | None \<Rightarrow>
                          (case check_exp (pl_exp p) now of
                             Some err \<Rightarrow> Inl err
                           | None \<Rightarrow> Inr p))))"

text \<open>The same call, with the record that it was made and on which arguments.\<close>

datatype jwt_call = Verify string string

definition jwt_verify_traced ::
  "libs \<Rightarrow> string \<Rightarrow> string \<Rightarrow> nat \<Rightarrow> (jwt_error + jwt_payload) \<times> jwt_call list" where
  "jwt_verify_traced L token secret now = (jwt_verify L token secret now, [Verify token secret])"

subsection \<open>The handlers\<close>

text \<open>\<^verbatim>\<open>app.post("/register")\<close>.\<close>

text \<open>The \<^verbatim>\<open>catch\<close> of the handler.\<close>

definition register_catch :: "thrown \<Rightarrow> response" where
  "register_catch err =
     (if err_code err = Some 11000 then json 400 (Error ''Username already exists'')
      else json 500 (Error ''Failed to register user''))"

definition post_register :: "libs \<Rightarrow> env \<Rightarrow> db \<Rightarrow> request \<Rightarrow> response \<times> db" where
  "post_register L E s req =
     (if falsy_json (body_username req) \<or> falsy_json (body_password req)
      then (json 400 (Error ''Username and password are required''), s)
      else (case bcrypt_hash_js L (js_value (body_password req)) (salt E) of
              Inl err \<Rightarrow> (register_catch err, s)
            | Inr hashedPassword \<Rightarrow>
                (case User_save L (js_value (body_username req)) hashedPassword s of
                   (Inr newUser, s') \<Rightarrow> (json 201 (Message ''User registered successfully''), s')
                 | (Inl err, s') \<Rightarrow> (register_catch err, s'))))"

text \<open>\<^verbatim>\<open>app.post("/login")\<close>.\<close>

definition post_login :: "libs \<Rightarrow> env \<Rightarrow> db \<Rightarrow> request \<Rightarrow> response \<times> db" where
  "post_login L E s req =
     (if falsy_json (body_username req) \<or> falsy_json (body_password req)
      then (json 400 (Error ''Username and password are required''), s)
      else (case User_findOne L (js_value (body_username req)) s of
              (Inl err, s') \<Rightarrow> (json 500 (Error ''Failed to log in''), s')
            | (Inr None, s') \<Rightarrow> (json 401 (Error ''Invalid username or password''), s')
            | (Inr (Some u), s') \<Rightarrow>
                (case bcrypt_compare_js L (js_value (body_password req)) (password u) of
                   Inl err \<Rightarrow> (json 500 (Error ''Failed to log in''), s')
                 | Inr False \<Rightarrow> (json 401 (Error ''Invalid username or password''), s')
                 | Inr True \<Rightarrow>
                     (json 200
                        (Token (jwt_sign L \<lparr>pl_userId = Some (user_id u), pl_iat = None,
                                            pl_exp = None, pl_nbf = None\<rparr>
                                  (SECRET_KEY E) 3600 (clock E))),
                      s'))))"

text \<open>The middleware \<^verbatim>\<open>authenticate\<close>: it answers itself, or sets \<^verbatim>\<open>req.userId\<close> and
  calls \<^verbatim>\<open>next()\<close>. \<open>authenticate_traced\<close> is the middleware with the calls it makes
  to \<^verbatim>\<open>jwt.verify\<close>; \<open>authenticate\<close> is what it does to the request.\<close>

datatype auth_outcome = Answered response | Next request

definition authenticate_traced :: "libs \<Rightarrow> env \<Rightarrow> request \<Rightarrow> auth_outcome \<times> jwt_call list" where
  "authenticate_traced L E req =
     (if falsy (headers_authorization req)
      then (Answered (json 401 (Error ''Access denied. No token provided.'')), [])
      else (case jwt_verify_traced L (str (headers_authorization req)) (SECRET_KEY E) (clock E) of
              (Inr decoded, made) \<Rightarrow> (Next (req\<lparr>req_userId := pl_userId decoded\<rparr>), made)
            | (Inl err, made) \<Rightarrow> (Answered (json 401 (Error ''Invalid token'')), made)))"

definition authenticate :: "libs \<Rightarrow> env \<Rightarrow> request \<Rightarrow> auth_outcome" where
  "authenticate L E req = fst (authenticate_traced L E req)"

text \<open>A route registered as \<^verbatim>\<open>app.METHOD(path, authenticate, handler)\<close>.\<close>

definition behind_authenticate ::
  "libs \<Rightarrow> env \<Rightarrow> (db \<Rightarrow> request \<Rightarrow> response \<times> db) \<Rightarrow> db \<Rightarrow> request \<Rightarrow> response \<times> db" where
  "behind_authenticate L E handler s req =
     (case authenticate L E req of
        Answered res \<Rightarrow> (res, s)
      | Next req' \<Rightarrow> handler s req')"

text \<open>The handler of \<^verbatim>\<open>app.get("/tasks")\<close>.\<close>

definition get_tasks_handler :: "libs \<Rightarrow> db \<Rightarrow> request \<Rightarrow> response \<times> db" where
  "get_tasks_handler L s req =
     (case Task_find L (req_userId req) s of
        (Inr ts, s') \<Rightarrow> (json 200 (TaskList ts), s')
      | (Inl err, s') \<Rightarrow> (json 500 (Error ''Failed to fetch tasks''), s'))"

text \<open>The handler of \<^verbatim>\<open>app.post("/tasks")\<close>.\<close>

definition post_tasks_handler :: "libs \<Rightarrow> db \<Rightarrow> request \<Rightarrow> response \<times> db" where
  "post_tasks_handler L s req =
     (if falsy (body_text req) then (json 400 (Error ''Task text is required''), s)
      else (case Task_save (str (body_text req)) (req_userId req) s of
              (Inr newTask, s') \<Rightarrow> (json 201 (TaskDoc newTask), s')
            | (Inl err, s') \<Rightarrow> (json 500 (Error ''Failed to add task''), s')))"

text \<open>The handler of \<^verbatim>\<open>app.delete("/tasks/:id")\<close>.\<close>

definition delete_tasks_handler :: "libs \<Rightarrow> db \<Rightarrow> request \<Rightarrow> response \<times> db" where
  "delete_tasks_handler L s req =
     (case Task_findOneAndDelete L (params_id req) (req_userId req) s of
        (Inl err, s') \<Rightarrow> (json 500 (Error ''Failed to delete task''), s')
      | (Inr None, s') \<Rightarrow> (json 404 (Error ''Task not found''), s')
      | (Inr (Some deletedTask), s') \<Rightarrow> (json 200 (Message ''Task deleted successfully''), s'))"

text \<open>The three protected routes and the test route.\<close>

definition get_tasks :: "libs \<Rightarrow> env \<Rightarrow> db \<Rightarrow> request \<Rightarrow> response \<times> db" where
  "get_tasks L E = behind_authenticate L E (get_tasks_handler L)"

definition post_tasks :: "libs \<Rightarrow> env \<Rightarrow> db \<Rightarrow> request \<Rightarrow> response \<times> db" where
  "post_tasks L E = behind_authenticate L E (post_tasks_handler L)"

definition delete_tasks :: "libs \<Rightarrow> env \<Rightarrow> db \<Rightarrow> request \<Rightarrow> response \<times> db" where
  "delete_tasks L E = behind_authenticate L E (delete_tasks_handler L)"

definition get_root :: "db \<Rightarrow> request \<Rightarrow> response \<times> db" where
  "get_root s req = (\<lparr>status = 200, body = Plain ''Server is running successfully!''\<rparr>, s)"

subsection \<open>Predicates of the specification\<close>

text \<open>A token verifies under the server secret when it has the shape of a token, its
  payload can be read and its signature is the one of that secret. It is expired when
  its \<^verbatim>\<open>exp\<close> is a number not after the clock, not yet valid when its \<^verbatim>\<open>nbf\<close> is a
  number after the clock, and its dates are malformed when \<^verbatim>\<open>exp\<close> or \<^verbatim>\<open>nbf\<close> is
  present and not a number. \<open>jws_round_trip\<close> says that the library reads back the
  payload it has signed. \<open>wf_db\<close> is the invariant of the store: ids and usernames are
  unique, usernames are not empty, every id was drawn from the counter.\<close>

definition signature_verifies :: "libs \<Rightarrow> env \<Rightarrow> string \<Rightarrow> bool" where
  "signature_verifies L E tk = (isValidJws tk \<and> jws_decode L tk \<noteq> None \<and> jws_verify L tk (SECRET_KEY E))"

fun is_number :: "json \<Rightarrow> bool" where
  "is_number (JNum r) = True"
| "is_number v = False"

definition token_expired :: "libs \<Rightarrow> env \<Rightarrow> string \<Rightarrow> bool" where
  "token_expired L E tk =
     (case jws_decode L tk of None \<Rightarrow> False
      | Some p \<Rightarrow> (case pl_exp p of Some (JNum e) \<Rightarrow> e \<le> real (clock E) | _ \<Rightarrow> False))"

definition token_not_yet_valid :: "libs \<Rightarrow> env \<Rightarrow> string \<Rightarrow> bool" where
  "token_not_yet_valid L E tk =
     (case jws_decode L tk of None \<Rightarrow> False
      | Some p \<Rightarrow> (case pl_nbf p of Some (JNum n) \<Rightarrow> real (clock E) < n | _ \<Rightarrow> False))"

definition token_dates_malformed :: "libs \<Rightarrow> string \<Rightarrow> bool" where
  "token_dates_malformed L tk =
     (case jws_decode L tk of None \<Rightarrow> False
      | Some p \<Rightarrow> (case pl_exp p of None \<Rightarrow> False | Some v \<Rightarrow> \<not> is_number v)
                  \<or> (case pl_nbf p of None \<Rightarrow> False | Some v \<Rightarrow> \<not> is_number v))"

definition jws_round_trip :: "libs \<Rightarrow> jwt_payload \<Rightarrow> string \<Rightarrow> bool" where
  "jws_round_trip L p k =
     (isValidJws (jws_sign L p k) \<and> jws_decode L (jws_sign L p k) = Some p
      \<and> jws_verify L (jws_sign L p k) k)"

definition wf_db :: "db \<Rightarrow> bool" where
  "wf_db s =
     (distinct (map task_id (tasks s)) \<and> distinct (map user_id (users s))
      \<and> distinct (map username (users s))
      \<and> list_all (\<lambda>u. username u \<noteq> [] \<and> user_id u < next_id s) (users s)
      \<and> list_all (\<lambda>t. task_id t < next_id s) (tasks s))"

text \<open>The tasks of a listing, and among tasks those with a given text that are not
  completed.\<close>

definition listed :: "response \<Rightarrow> task list" where
  "listed res = (case body res of TaskList ts \<Rightarrow> ts | _ \<Rightarrow> [])"

definition open_with_text :: "string \<Rightarrow> task list \<Rightarrow> task list" where
  "open_with_text content ts = filter (\<lambda>x. task_text x = content \<and> \<not> completed x) ts"

subsection \<open>Example data\<close>

text \<open>A small library, a store with two users and one task each, and requests, used to
  evaluate the theorems. The library knows six tokens: those of the two users, one
  without \<^verbatim>\<open>userId\<close>, one without \<^verbatim>\<open>userId\<close> that is valid from 3000 on, one without
  \<^verbatim>\<open>userId\<close> whose \<^verbatim>\<open>exp\<close> is a string, and one signed with another key.\<close>

definition alice_token :: string where "alice_token = ''eyJh.alice.c2ln''"

definition bob_token :: string where "bob_token = ''eyJh.bob.c2ln''"

definition anon_token :: string where "anon_token = ''eyJh.anon.c2ln''"

definition early_token :: string where "early_token = ''eyJh.early.c2ln''"

definition odd_token :: string where "odd_token = ''eyJh.odd.c2ln''"

definition forged_token :: string where "forged_token = ''eyJh.alice.forged''"

definition demo_payload :: "objectid option \<Rightarrow> jwt_payload" where
  "demo_payload v =
     \<lparr>pl_userId = v, pl_iat = Some (JNum 1000), pl_exp = Some (JNum 4600), pl_nbf = None\<rparr>"

definition demo_libs :: libs where
  "demo_libs =
     \<lparr>bcrypt_hash = (\<lambda>pw sl. sl @ ''$'' @ pw),
      bcrypt_compare = (\<lambda>pw h. h = ''$s4lt$'' @ pw),
      jws_sign = (\<lambda>p k. if k \<noteq> ''your_secret_key'' then forged_token
                         else if pl_userId p = Some 0 then alice_token
                         else if pl_userId p = Some 1 then bob_token else anon_token),
      jws_decode = (\<lambda>tk. if tk = alice_token \<or> tk = forged_token then Some (demo_payload (Some 0))
                          else if tk = bob_token then Some (demo_payload (Some 1))
                          else if tk = anon_token then Some (demo_payload None)
                          else if tk = early_token
                          then Some ((demo_payload None)\<lparr>pl_nbf := Some (JNum 3000)\<rparr>)
                          else if tk = odd_token
                          then Some ((demo_payload None)\<lparr>pl_exp := Some (JStr ''soon'')\<rparr>)
                          else None),
      jws_verify = (\<lambda>tk k. if k = ''your_secret_key''
                          then tk = alice_token \<or> tk = bob_token \<or> tk = anon_token
                               \<or> tk = early_token \<or> tk = odd_token
                          else tk = forged_token),
      castObjectId = (\<lambda>i. if length i = 24 \<and> take 23 i = ''00000000000000000000000''
                              \<and> last i \<in> set ''0123456789''
                           then Some (of_char (last i) - 48) else None),
      matches_undefined = (\<lambda>t. userId t = None),
      castString = (\<lambda>v. None),
      username_query = (\<lambda>v. None)\<rparr>"

definition demo_env :: "nat \<Rightarrow> env" where
  "demo_env now = \<lparr>env_SECRET_KEY = None, clock = now, salt = ''s4lt''\<rparr>"

definition empty_db :: db where
  "empty_db = \<lparr>connected = True, users = [], tasks = [], next_id = 0, calls = []\<rparr>"

definition demo_db :: db where
  "demo_db =
     \<lparr>connected = True,
      users = [\<lparr>user_id = 0, username = ''alice'', password = ''$s4lt$pw1''\<rparr>,
               \<lparr>user_id = 1, username = ''bob'', password = ''$s4lt$pw2''\<rparr>],
      tasks = [\<lparr>task_id = 2, task_text = ''buy milk'', completed = False, userId = Some 0\<rparr>,
               \<lparr>task_id = 3, task_text = ''call home'', completed = False, userId = Some 1\<rparr>],
      next_id = 4, calls = []\<rparr>"

definition demo_request :: "string option \<Rightarrow> request" where
  "demo_request h =
     \<lparr>headers_authorization = h, body_username = None, body_password = None,
      body_text = Some ''buy milk'', params_id = ''000000000000000000000002'', req_userId = None\<rparr>"

definition demo_login_json :: "json \<Rightarrow> json \<Rightarrow> request" where
  "demo_login_json name pw =
     \<lparr>headers_authorization = None, body_username = Some name, body_password = Some pw,
      body_text = None, params_id = [], req_userId = None\<rparr>"

definition demo_login :: "string \<Rightarrow> string \<Rightarrow> request" where
  "demo_login name pw = demo_login_json (JStr name) (JStr pw)"

definition demo_delete :: "string option \<Rightarrow> string \<Rightarrow> request" where
  "demo_delete h i =
     \<lparr>headers_authorization = h, body_username = None, body_password = None,
      body_text = None, params_id = i, req_userId = None\<rparr>"

definition demo_create :: "string option \<Rightarrow> string \<Rightarrow> request" where
  "demo_create h content =
     \<lparr>headers_authorization = h, body_username = None, body_password = None,
      body_text = Some content, params_id = [], req_userId = None\<rparr>"

definition registered_db :: db where
  "registered_db =
     \<lparr>connected = True, users = [\<lparr>user_id = 0, username = ''alice'', password = ''$s4lt$pw1''\<rparr>],
      tasks = [], next_id = 1, calls = []\<rparr>"

definition created_db :: db where
  "created_db =
     registered_db\<lparr>tasks := [\<lparr>task_id = 1, task_text = ''x'', completed = False, userId = Some 0\<rparr>],
                   next_id := 2\<rparr>"

section \<open>Properties\<close>

subsection \<open>The shape of a token and the gate\<close>

lemma set_split_on: "set s \<subseteq> \<Union> (set ` set (split_on d s)) \<union> {d}"
proof (induction s)
  case Nil
  show ?case by simp
next
  case (Cons a s)
  show ?case
  proof (cases "split_on d s")
    case Nil
    with Cons show ?thesis by auto
  next
    case (Cons q qs)
    with Cons.IH show ?thesis by (cases "a = d") auto
  qed
qed

lemma isValidJws_chars:
  assumes "isValidJws s" and "c \<in> set s"
  shows "b64url_char c \<or> c = CHR ''.''"
proof -
  from assms(1) obtain h p g where sp: "split_on (CHR ''.'') s = [h, p, g]"
    and ok: "list_all b64url_char h" "list_all b64url_char p" "list_all b64url_char g"
    by (auto simp: isValidJws_def split: list.splits)
  from set_split_on [of s "CHR ''.''"] assms(2) sp
  have "c \<in> set h \<or> c \<in> set p \<or> c \<in> set g \<or> c = CHR ''.''" by auto
  with ok show ?thesis by (auto simp: list_all_iff)
qed

lemma not_isValidJws_Bearer: "\<not> isValidJws (''Bearer '' @ tk)"
proof
  assume "isValidJws (''Bearer '' @ tk)"
  then have "b64url_char (CHR '' '') \<or> CHR '' '' = CHR ''.''"
    by (rule isValidJws_chars) simp
  then show False by (simp add: b64url_char_def)
qed

lemma check_exp_expired: "e \<le> real now \<Longrightarrow> check_exp (Some (JNum e)) now = Some TokenExpiredError"
  by simp

lemma check_nbf_None_iff:
  "check_nbf v now = None \<longleftrightarrow> v = None \<or> (\<exists>n. v = Some (JNum n) \<and> n \<le> real now)"
  by (cases "(v, now)" rule: check_nbf.cases) auto

lemma check_exp_None_iff:
  "check_exp v now = None \<longleftrightarrow> v = None \<or> (\<exists>e. v = Some (JNum e) \<and> real now < e)"
  by (cases "(v, now)" rule: check_exp.cases) auto

lemma jwt_verify_Inr_iff:
  "jwt_verify L tk k now = Inr p \<longleftrightarrow>
     isValidJws tk \<and> jws_decode L tk = Some p \<and> jws_verify L tk k
     \<and> check_nbf (pl_nbf p) now = None \<and> check_exp (pl_exp p) now = None"
  by (auto simp: jwt_verify_def split: option.splits)

text \<open>What the middleware does to the request: the source, read without the record of
  the calls.\<close>

lemma authenticate_eq:
  "authenticate L E req =
     (if falsy (headers_authorization req)
      then Answered (json 401 (Error ''Access denied. No token provided.''))
      else (case jwt_verify L (str (headers_authorization req)) (SECRET_KEY E) (clock E) of
              Inr decoded \<Rightarrow> Next (req\<lparr>req_userId := pl_userId decoded\<rparr>)
            | Inl err \<Rightarrow> Answered (json 401 (Error ''Invalid token''))))"
  by (simp add: authenticate_def authenticate_traced_def jwt_verify_traced_def split: sum.splits)

lemma authenticate_Next_iff:
  "authenticate L E req = Next req' \<longleftrightarrow>
     (\<exists>p. \<not> falsy (headers_authorization req)
        \<and> jwt_verify L (str (headers_authorization req)) (SECRET_KEY E) (clock E) = Inr p
        \<and> req' = req\<lparr>req_userId := pl_userId p\<rparr>)"
  by (auto simp: authenticate_eq split: sum.splits)

lemma authenticate_Answered:
  "authenticate L E req = Answered res \<Longrightarrow>
     res = json 401 (Error ''Access denied. No token provided.'') \<or> res = json 401 (Error ''Invalid token'')"
  by (auto simp: authenticate_eq split: sum.splits if_splits)

lemma authenticate_absent:
  "falsy (headers_authorization req) \<Longrightarrow>
     authenticate L E req = Answered (json 401 (Error ''Access denied. No token provided.''))"
  by (simp add: authenticate_eq)

lemma authenticate_invalid:
  "\<not> falsy (headers_authorization req) \<Longrightarrow>
   jwt_verify L (str (headers_authorization req)) (SECRET_KEY E) (clock E) = Inl err \<Longrightarrow>
     authenticate L E req = Answered (json 401 (Error ''Invalid token''))"
  by (simp add: authenticate_eq)

lemma authenticate_valid:
  "\<not> falsy (headers_authorization req) \<Longrightarrow>
   jwt_verify L (str (headers_authorization req)) (SECRET_KEY E) (clock E) = Inr p \<Longrightarrow>
     authenticate L E req = Next (req\<lparr>req_userId := pl_userId p\<rparr>)"
  by (simp add: authenticate_eq)

lemma jwt_verify_bad_signature:
  "\<not> jws_verify L tk k \<Longrightarrow> \<exists>err. jwt_verify L tk k now = Inl err"
  by (auto simp: jwt_verify_def split: option.splits)

lemma jwt_verify_expired:
  "jws_decode L tk = Some p \<Longrightarrow> pl_exp p = Some (JNum e) \<Longrightarrow> e \<le> real now \<Longrightarrow>
     \<exists>err. jwt_verify L tk k now = Inl err"
  by (auto simp: jwt_verify_def split: option.splits)

text \<open>
  Claim C2 (credential verification gate). For every route behind \<^verbatim>\<open>authenticate\<close>,
  whatever its handler: a request without an Authorization header (or with an empty one)
  is answered 401 ``Access denied. No token provided.'' and the store is as it was, so
  the handler has not run; a request whose token does not verify under the server secret,
  or whose token is expired, is answered 401 ``Invalid token'', again without the
  handler; \<^verbatim>\<open>next()\<close> is called exactly when \<^verbatim>\<open>jwt.verify\<close> returns a payload, and then
  the handler runs on the request whose \<^verbatim>\<open>userId\<close> is the one embedded in the token.
\<close>

theorem credential_verification_gate:
  "(falsy (headers_authorization req) \<longrightarrow>
      behind_authenticate L E handler s req
        = (json 401 (Error ''Access denied. No token provided.''), s))
   \<and> (\<not> falsy (headers_authorization req)
        \<and> (\<not> jws_verify L (str (headers_authorization req)) (SECRET_KEY E)
           \<or> (\<exists>p e. jws_decode L (str (headers_authorization req)) = Some p
                   \<and> pl_exp p = Some (JNum e) \<and> e \<le> real (clock E))) \<longrightarrow>
      behind_authenticate L E handler s req = (json 401 (Error ''Invalid token''), s))
   \<and> (\<forall>req'. authenticate L E req = Next req' \<longleftrightarrow>
        (\<exists>p. \<not> falsy (headers_authorization req)
           \<and> jwt_verify L (str (headers_authorization req)) (SECRET_KEY E) (clock E) = Inr p
           \<and> req' = req\<lparr>req_userId := pl_userId p\<rparr>))
   \<and> (\<forall>p. \<not> falsy (headers_authorization req)
           \<and> jwt_verify L (str (headers_authorization req)) (SECRET_KEY E) (clock E) = Inr p \<longrightarrow>
        behind_authenticate L E handler s req = handler s (req\<lparr>req_userId := pl_userId p\<rparr>))"
proof (intro conjI impI allI)
  assume "falsy (headers_authorization req)"
  then show "behind_authenticate L E handler s req
        = (json 401 (Error ''Access denied. No token provided.''), s)"
    by (simp add: behind_authenticate_def authenticate_absent)
next
  assume a: "\<not> falsy (headers_authorization req)
        \<and> (\<not> jws_verify L (str (headers_authorization req)) (SECRET_KEY E)
           \<or> (\<exists>p e. jws_decode L (str (headers_authorization req)) = Some p
                   \<and> pl_exp p = Some (JNum e) \<and> e \<le> real (clock E)))"
  then have "\<exists>err. jwt_verify L (str (headers_authorization req)) (SECRET_KEY E) (clock E) = Inl err"
    using jwt_verify_bad_signature jwt_verify_expired by blast
  with a show "behind_authenticate L E handler s req = (json 401 (Error ''Invalid token''), s)"
    by (auto simp: behind_authenticate_def authenticate_invalid)
next
  fix req'
  show "authenticate L E req = Next req' \<longleftrightarrow>
        (\<exists>p. \<not> falsy (headers_authorization req)
           \<and> jwt_verify L (str (headers_authorization req)) (SECRET_KEY E) (clock E) = Inr p
           \<and> req' = req\<lparr>req_userId := pl_userId p\<rparr>)"
    by (rule authenticate_Next_iff)
next
  fix p
  assume "\<not> falsy (headers_authorization req)
           \<and> jwt_verify L (str (headers_authorization req)) (SECRET_KEY E) (clock E) = Inr p"
  then show "behind_authenticate L E handler s req = handler s (req\<lparr>req_userId := pl_userId p\<rparr>)"
    by (simp add: behind_authenticate_def authenticate_valid)
qed

lemmas demo_defs = demo_libs_def demo_env_def empty_db_def demo_request_def demo_payload_def
  alice_token_def bob_token_def anon_token_def forged_token_def early_token_def odd_token_def

lemma SECRET_KEY_default:
  "SECRET_KEY \<lparr>env_SECRET_KEY = None, clock = n, salt = sl\<rparr> = ''your_secret_key''"
  "SECRET_KEY (demo_env n) = ''your_secret_key''"
  by (simp_all add: SECRET_KEY_def falsy_def demo_env_def)

lemma isValidJws_demo [simp]:
  "isValidJws alice_token" "isValidJws bob_token" "isValidJws anon_token" "isValidJws forged_token"
  by (simp_all add: isValidJws_def b64url_char_def demo_defs)

theorem credential_verification_gate_witness:
  "falsy (headers_authorization (demo_request None))
   \<and> get_tasks demo_libs (demo_env 2000) empty_db (demo_request None)
       = (json 401 (Error ''Access denied. No token provided.''), empty_db)
   \<and> \<not> jws_verify demo_libs forged_token (SECRET_KEY (demo_env 2000))
   \<and> get_tasks demo_libs (demo_env 2000) empty_db (demo_request (Some forged_token))
       = (json 401 (Error ''Invalid token''), empty_db)
   \<and> get_tasks demo_libs (demo_env 2000) empty_db (demo_request (Some alice_token))
       = get_tasks_handler demo_libs empty_db ((demo_request (Some alice_token))\<lparr>req_userId := Some 0\<rparr>)"
proof -
  have v: "jwt_verify demo_libs alice_token (SECRET_KEY (demo_env 2000)) (clock (demo_env 2000))
             = Inr (demo_payload (Some 0))"
    by (simp add: jwt_verify_def SECRET_KEY_def falsy_def) (simp add: demo_defs)
  have f: "\<not> jws_verify demo_libs forged_token (SECRET_KEY (demo_env 2000))"
    by (simp add: SECRET_KEY_default) (simp add: demo_defs)
  note g1 = credential_verification_gate [where req = "demo_request None" and L = demo_libs
      and E = "demo_env 2000" and handler = "get_tasks_handler demo_libs" and s = empty_db]
  note g2 = credential_verification_gate [where req = "demo_request (Some forged_token)" and L = demo_libs
      and E = "demo_env 2000" and handler = "get_tasks_handler demo_libs" and s = empty_db]
  note g3 = credential_verification_gate [where req = "demo_request (Some alice_token)" and L = demo_libs
      and E = "demo_env 2000" and handler = "get_tasks_handler demo_libs" and s = empty_db]
  have a: "falsy (headers_authorization (demo_request None))"
    by (simp add: falsy_def demo_request_def)
  have b: "\<not> falsy (headers_authorization (demo_request (Some forged_token)))"
          "\<not> falsy (headers_authorization (demo_request (Some alice_token)))"
    by (simp_all add: falsy_def demo_defs)
  have c: "str (headers_authorization (demo_request (Some forged_token))) = forged_token"
          "str (headers_authorization (demo_request (Some alice_token))) = alice_token"
    by (simp_all add: str_def demo_request_def)
  from g1 a have 1: "get_tasks demo_libs (demo_env 2000) empty_db (demo_request None)
       = (json 401 (Error ''Access denied. No token provided.''), empty_db)"
    by (simp add: get_tasks_def)
  from g2 b c f have 2: "get_tasks demo_libs (demo_env 2000) empty_db (demo_request (Some forged_token))
       = (json 401 (Error ''Invalid token''), empty_db)"
    by (simp add: get_tasks_def)
  from g3 b c v have 3: "get_tasks demo_libs (demo_env 2000) empty_db (demo_request (Some alice_token))
       = get_tasks_handler demo_libs empty_db ((demo_request (Some alice_token))\<lparr>req_userId := Some 0\<rparr>)"
    by (simp add: get_tasks_def demo_payload_def)
  from a f 1 2 3 show ?thesis by simp
qed

lemma behind_authenticate_Answered:
  "authenticate L E req = Answered res \<Longrightarrow> behind_authenticate L E handler s req = (res, s)"
  by (simp add: behind_authenticate_def)

lemma behind_authenticate_Next:
  "authenticate L E req = Next req' \<Longrightarrow> behind_authenticate L E handler s req = handler s req'"
  by (simp add: behind_authenticate_def)

lemma authenticate_Bearer:
  "authenticate L E (req\<lparr>headers_authorization := Some (''Bearer '' @ tk)\<rparr>)
     = Answered (json 401 (Error ''Invalid token''))"
proof -
  have "jwt_verify L (''Bearer '' @ tk) (SECRET_KEY E) (clock E) = Inl JsonWebTokenError"
    using not_isValidJws_Bearer [of tk] by (simp add: jwt_verify_def)
  then show ?thesis
    by (simp add: authenticate_eq falsy_def str_def)
qed

lemma authenticate_traced_absent:
  "falsy (headers_authorization req) \<Longrightarrow> snd (authenticate_traced L E req) = []"
  by (simp add: authenticate_traced_def)

lemma authenticate_traced_present:
  "\<not> falsy (headers_authorization req) \<Longrightarrow>
     snd (authenticate_traced L E req)
       = [Verify (str (headers_authorization req)) (SECRET_KEY E)]"
  by (simp add: authenticate_traced_def jwt_verify_traced_def split: sum.splits)

lemma authenticate_present:
  "\<not> falsy (headers_authorization req) \<Longrightarrow>
     authenticate L E req =
       (case jwt_verify L (str (headers_authorization req)) (SECRET_KEY E) (clock E) of
          Inr decoded \<Rightarrow> Next (req\<lparr>req_userId := pl_userId decoded\<rparr>)
        | Inl err \<Rightarrow> Answered (json 401 (Error ''Invalid token'')))"
  by (simp add: authenticate_eq)

text \<open>
  Claim C8 (literal token transport). On every request the middleware in front of the
  protected routes calls \<^verbatim>\<open>jwt.verify\<close> once when the Authorization header is not empty,
  on the value of the header exactly as it was received and the server secret, and not
  at all when the header is absent or empty; what it then does is decided by the result
  of that call alone, so nothing is stripped and no test of the format comes before
  the verification. A header \<^verbatim>\<open>Bearer <token>\<close> is thus verified as the literal string,
  whatever the token after the prefix, and answered 401 ``Invalid token'' by each
  protected route.
\<close>

theorem literal_token_transport:
  "(falsy (headers_authorization req) \<longrightarrow> snd (authenticate_traced L E req) = [])
   \<and> (\<not> falsy (headers_authorization req) \<longrightarrow>
        snd (authenticate_traced L E req)
          = [Verify (str (headers_authorization req)) (SECRET_KEY E)]
        \<and> authenticate L E req =
            (case jwt_verify L (str (headers_authorization req)) (SECRET_KEY E) (clock E) of
               Inr decoded \<Rightarrow> Next (req\<lparr>req_userId := pl_userId decoded\<rparr>)
             | Inl err \<Rightarrow> Answered (json 401 (Error ''Invalid token''))))
   \<and> snd (authenticate_traced L E (req\<lparr>headers_authorization := Some (''Bearer '' @ tk)\<rparr>))
        = [Verify (''Bearer '' @ tk) (SECRET_KEY E)]
   \<and> get_tasks L E s (req\<lparr>headers_authorization := Some (''Bearer '' @ tk)\<rparr>)
        = (json 401 (Error ''Invalid token''), s)
   \<and> post_tasks L E s (req\<lparr>headers_authorization := Some (''Bearer '' @ tk)\<rparr>)
        = (json 401 (Error ''Invalid token''), s)
   \<and> delete_tasks L E s (req\<lparr>headers_authorization := Some (''Bearer '' @ tk)\<rparr>)
        = (json 401 (Error ''Invalid token''), s)"
proof -
  let ?b = "req\<lparr>headers_authorization := Some (''Bearer '' @ tk)\<rparr>"
  have nf: "\<not> falsy (headers_authorization ?b)" by (simp add: falsy_def)
  have "snd (authenticate_traced L E ?b) = [Verify (str (headers_authorization ?b)) (SECRET_KEY E)]"
    using nf by (rule authenticate_traced_present)
  then have t: "snd (authenticate_traced L E ?b) = [Verify (''Bearer '' @ tk) (SECRET_KEY E)]"
    by (simp add: str_def)
  have r: "authenticate L E ?b = Answered (json 401 (Error ''Invalid token''))"
    by (rule authenticate_Bearer)
  from r have routes:
    "get_tasks L E s ?b = (json 401 (Error ''Invalid token''), s)"
    "post_tasks L E s ?b = (json 401 (Error ''Invalid token''), s)"
    "delete_tasks L E s ?b = (json 401 (Error ''Invalid token''), s)"
    by (simp_all add: get_tasks_def post_tasks_def delete_tasks_def behind_authenticate_Answered)
  from t routes show ?thesis
    by (simp add: authenticate_traced_absent authenticate_traced_present authenticate_present)
qed

theorem literal_token_transport_witness:
  "falsy (headers_authorization (demo_request None))
   \<and> snd (authenticate_traced demo_libs (demo_env 2000) (demo_request None)) = []
   \<and> \<not> falsy (headers_authorization (demo_request (Some alice_token)))
   \<and> snd (authenticate_traced demo_libs (demo_env 2000) (demo_request (Some alice_token)))
       = [Verify alice_token ''your_secret_key'']
   \<and> snd (authenticate_traced demo_libs (demo_env 2000)
             (demo_request (Some (''Bearer '' @ alice_token))))
       = [Verify (''Bearer '' @ alice_token) ''your_secret_key'']
   \<and> get_tasks demo_libs (demo_env 2000) empty_db (demo_request (Some (''Bearer '' @ alice_token)))
       = (json 401 (Error ''Invalid token''), empty_db)"
proof -
  have a: "falsy (headers_authorization (demo_request None))"
    by (simp add: falsy_def demo_request_def)
  have b: "\<not> falsy (headers_authorization (demo_request (Some alice_token)))"
    by (simp add: falsy_def demo_request_def alice_token_def)
  have c: "str (headers_authorization (demo_request (Some alice_token))) = alice_token"
    by (simp add: str_def demo_request_def)
  have d: "(demo_request None)\<lparr>headers_authorization := Some (''Bearer '' @ alice_token)\<rparr>
             = demo_request (Some (''Bearer '' @ alice_token))"
    by (simp add: demo_request_def)
  note t1 = literal_token_transport [where req = "demo_request None" and L = demo_libs
      and E = "demo_env 2000" and tk = alice_token and s = empty_db]
  note t2 = literal_token_transport [where req = "demo_request (Some alice_token)" and L = demo_libs
      and E = "demo_env 2000"]
  from t1 a have 1: "snd (authenticate_traced demo_libs (demo_env 2000) (demo_request None)) = []"
    by blast
  from t2 b have "snd (authenticate_traced demo_libs (demo_env 2000) (demo_request (Some alice_token)))
       = [Verify (str (headers_authorization (demo_request (Some alice_token))))
            (SECRET_KEY (demo_env 2000))]"
    by blast
  then have 2: "snd (authenticate_traced demo_libs (demo_env 2000) (demo_request (Some alice_token)))
       = [Verify alice_token ''your_secret_key'']"
    by (simp add: c SECRET_KEY_default)
  from t1 have "snd (authenticate_traced demo_libs (demo_env 2000)
             ((demo_request None)\<lparr>headers_authorization := Some (''Bearer '' @ alice_token)\<rparr>))
       = [Verify (''Bearer '' @ alice_token) (SECRET_KEY (demo_env 2000))]"
    by blast
  then have 3: "snd (authenticate_traced demo_libs (demo_env 2000)
             (demo_request (Some (''Bearer '' @ alice_token))))
       = [Verify (''Bearer '' @ alice_token) ''your_secret_key'']"
    unfolding d by (simp only: SECRET_KEY_default)
  from t1 have "get_tasks demo_libs (demo_env 2000) empty_db
             ((demo_request None)\<lparr>headers_authorization := Some (''Bearer '' @ alice_token)\<rparr>)
       = (json 401 (Error ''Invalid token''), empty_db)"
    by blast
  then have 4: "get_tasks demo_libs (demo_env 2000) empty_db
             (demo_request (Some (''Bearer '' @ alice_token)))
       = (json 401 (Error ''Invalid token''), empty_db)"
    unfolding d .
  from a b 1 2 3 4 show ?thesis by simp
qed

lemma date_checks_pass_iff:
  assumes "jws_decode L tk = Some p"
  shows "check_nbf (pl_nbf p) (clock E) = None \<and> check_exp (pl_exp p) (clock E) = None \<longleftrightarrow>
           \<not> token_dates_malformed L tk \<and> \<not> token_not_yet_valid L E tk \<and> \<not> token_expired L E tk"
proof -
  have n: "check_nbf (pl_nbf p) (clock E) = None \<longleftrightarrow>
             \<not> (case pl_nbf p of None \<Rightarrow> False | Some v \<Rightarrow> \<not> is_number v)
             \<and> \<not> (case pl_nbf p of Some (JNum n) \<Rightarrow> real (clock E) < n | _ \<Rightarrow> False)"
    by (cases "(pl_nbf p, clock E)" rule: check_nbf.cases) auto
  have e: "check_exp (pl_exp p) (clock E) = None \<longleftrightarrow>
             \<not> (case pl_exp p of None \<Rightarrow> False | Some v \<Rightarrow> \<not> is_number v)
             \<and> \<not> (case pl_exp p of Some (JNum e) \<Rightarrow> e \<le> real (clock E) | _ \<Rightarrow> False)"
    by (cases "(pl_exp p, clock E)" rule: check_exp.cases) auto
  from assms show ?thesis
    unfolding n e by (auto simp: token_dates_malformed_def token_not_yet_valid_def token_expired_def)
qed

lemma authenticate_Answered_iff:
  "(\<exists>res. authenticate L E req = Answered res) \<longleftrightarrow>
     headers_authorization req = None
     \<or> \<not> signature_verifies L E (str (headers_authorization req))
     \<or> token_dates_malformed L (str (headers_authorization req))
     \<or> token_not_yet_valid L E (str (headers_authorization req))
     \<or> token_expired L E (str (headers_authorization req))"
proof (cases "headers_authorization req")
  case None
  then show ?thesis by (simp add: authenticate_eq falsy_def)
next
  case (Some h)
  show ?thesis
  proof (cases "h = []")
    case True
    with Some show ?thesis
      by (simp add: authenticate_eq falsy_def str_def signature_verifies_def isValidJws_def)
  next
    case False
    with Some have nf: "\<not> falsy (headers_authorization req)" and h: "str (headers_authorization req) = h"
      by (simp_all add: falsy_def str_def)
    have "(\<exists>res. authenticate L E req = Answered res) \<longleftrightarrow>
            \<not> (\<exists>p. jwt_verify L h (SECRET_KEY E) (clock E) = Inr p)"
      using nf by (auto simp: authenticate_eq h split: sum.splits)
    also have "\<dots> \<longleftrightarrow> \<not> signature_verifies L E h \<or> token_dates_malformed L h
                       \<or> token_not_yet_valid L E h \<or> token_expired L E h"
    proof (cases "jws_decode L h")
      case None
      then show ?thesis by (simp add: jwt_verify_Inr_iff signature_verifies_def)
    next
      case (Some p)
      from date_checks_pass_iff [OF Some, of E] Some show ?thesis
        by (auto simp: jwt_verify_Inr_iff signature_verifies_def)
    qed
    finally show ?thesis using Some by (simp add: str_def)
  qed
qed

lemma authenticate_no_userId:
  assumes "headers_authorization req = Some tk" and "signature_verifies L E tk"
    and "\<not> token_dates_malformed L tk" and "\<not> token_not_yet_valid L E tk"
    and "\<not> token_expired L E tk" and "jws_decode L tk = Some p" and "pl_userId p = None"
  shows "authenticate L E req = Next (req\<lparr>req_userId := None\<rparr>)"
proof -
  from assms(2) have "tk \<noteq> []" by (auto simp: signature_verifies_def isValidJws_def)
  with assms(1) have nf: "\<not> falsy (headers_authorization req)" and h: "str (headers_authorization req) = tk"
    by (simp_all add: falsy_def str_def)
  from date_checks_pass_iff [OF assms(6), of E] assms(2-6)
  have "jwt_verify L tk (SECRET_KEY E) (clock E) = Inr p"
    by (simp add: jwt_verify_Inr_iff signature_verifies_def)
  with nf h assms(7) show ?thesis by (simp add: authenticate_eq)
qed

lemma owner_matches_None: "owner_matches L None = matches_undefined L"
  by (rule ext) (simp add: owner_matches_def)

lemma owner_matches_Some: "owner_matches L (Some a) t \<longleftrightarrow> userId t = Some a"
  by (simp add: owner_matches_def)

lemma get_tasks_handler_connected:
  "connected s \<Longrightarrow> get_tasks_handler L s req
     = (json 200 (TaskList (filter (owner_matches L (req_userId req)) (tasks s))),
        called (Task_find_op (req_userId req)) s)"
  by (simp add: get_tasks_handler_def Task_find_def)

text \<open>
  Claim C10, as amended (what the gate accepts). The gate answers itself exactly when
  the header is absent, or the token does not verify under the server secret (a string
  that is not a readable token does not verify), or its \<^verbatim>\<open>exp\<close> or \<^verbatim>\<open>nbf\<close> is present
  and not a number, or its \<^verbatim>\<open>nbf\<close> lies after the clock, or the token is expired.
  Nothing else about the payload is looked at: a token that passes these checks and
  carries no \<^verbatim>\<open>userId\<close> passes the gate, the three handlers run with \<^verbatim>\<open>req.userId\<close>
  undefined, and the listing is the answer of the store to the filter
  \<^verbatim>\<open>{userId: undefined}\<close>.
\<close>

theorem gate_accepts_on_signature_and_expiry:
  "((\<exists>res. authenticate L E req = Answered res) \<longleftrightarrow>
       headers_authorization req = None
       \<or> \<not> signature_verifies L E (str (headers_authorization req))
       \<or> token_dates_malformed L (str (headers_authorization req))
       \<or> token_not_yet_valid L E (str (headers_authorization req))
       \<or> token_expired L E (str (headers_authorization req)))
   \<and> (headers_authorization req = Some tk \<and> signature_verifies L E tk
        \<and> \<not> token_dates_malformed L tk \<and> \<not> token_not_yet_valid L E tk
        \<and> \<not> token_expired L E tk
        \<and> jws_decode L tk = Some p \<and> pl_userId p = None \<longrightarrow>
       authenticate L E req = Next (req\<lparr>req_userId := None\<rparr>)
       \<and> get_tasks L E s req = get_tasks_handler L s (req\<lparr>req_userId := None\<rparr>)
       \<and> post_tasks L E s req = post_tasks_handler L s (req\<lparr>req_userId := None\<rparr>)
       \<and> delete_tasks L E s req = delete_tasks_handler L s (req\<lparr>req_userId := None\<rparr>)
       \<and> (connected s \<longrightarrow>
            get_tasks L E s req
              = (json 200 (TaskList (filter (matches_undefined L) (tasks s))),
                 called (Task_find_op None) s)))"
proof (intro conjI impI)
  show "(\<exists>res. authenticate L E req = Answered res) \<longleftrightarrow>
       headers_authorization req = None
       \<or> \<not> signature_verifies L E (str (headers_authorization req))
       \<or> token_dates_malformed L (str (headers_authorization req))
       \<or> token_not_yet_valid L E (str (headers_authorization req))
       \<or> token_expired L E (str (headers_authorization req))"
    by (rule authenticate_Answered_iff)
next
  assume a: "headers_authorization req = Some tk \<and> signature_verifies L E tk
        \<and> \<not> token_dates_malformed L tk \<and> \<not> token_not_yet_valid L E tk
        \<and> \<not> token_expired L E tk
        \<and> jws_decode L tk = Some p \<and> pl_userId p = None"
  then have n: "authenticate L E req = Next (req\<lparr>req_userId := None\<rparr>)"
    by (intro authenticate_no_userId [of req tk L E p]) simp_all
  then show "authenticate L E req = Next (req\<lparr>req_userId := None\<rparr>)" .
  from n show "get_tasks L E s req = get_tasks_handler L s (req\<lparr>req_userId := None\<rparr>)"
    by (simp add: get_tasks_def behind_authenticate_Next)
  from n show "post_tasks L E s req = post_tasks_handler L s (req\<lparr>req_userId := None\<rparr>)"
    by (simp add: post_tasks_def behind_authenticate_Next)
  from n show "delete_tasks L E s req = delete_tasks_handler L s (req\<lparr>req_userId := None\<rparr>)"
    by (simp add: delete_tasks_def behind_authenticate_Next)
  assume "connected s"
  with n show "get_tasks L E s req
              = (json 200 (TaskList (filter (matches_undefined L) (tasks s))),
                 called (Task_find_op None) s)"
    by (simp add: get_tasks_def behind_authenticate_Next get_tasks_handler_connected owner_matches_None)
qed

lemma signature_verifies_demo:
  "signature_verifies demo_libs (demo_env n) anon_token"
  "signature_verifies demo_libs (demo_env n) early_token"
  "signature_verifies demo_libs (demo_env n) odd_token"
  by (simp_all add: signature_verifies_def SECRET_KEY_default isValidJws_def b64url_char_def
        demo_defs)

theorem gate_accepts_on_signature_and_expiry_witness:
  "headers_authorization (demo_request (Some anon_token)) = Some anon_token
   \<and> signature_verifies demo_libs (demo_env 2000) anon_token
   \<and> \<not> token_dates_malformed demo_libs anon_token
   \<and> \<not> token_not_yet_valid demo_libs (demo_env 2000) anon_token
   \<and> \<not> token_expired demo_libs (demo_env 2000) anon_token
   \<and> jws_decode demo_libs anon_token = Some (demo_payload None)
   \<and> pl_userId (demo_payload None) = None
   \<and> connected demo_db
   \<and> get_tasks demo_libs (demo_env 2000) demo_db (demo_request (Some anon_token))
        = (json 200 (TaskList []), called (Task_find_op None) demo_db)"
proof -
  have a: "headers_authorization (demo_request (Some anon_token)) = Some anon_token"
    by (simp add: demo_request_def)
  have d: "jws_decode demo_libs anon_token = Some (demo_payload None)"
    by (simp add: demo_defs)
  have b: "signature_verifies demo_libs (demo_env 2000) anon_token"
    by (rule signature_verifies_demo)
  have c: "\<not> token_dates_malformed demo_libs anon_token"
    "\<not> token_not_yet_valid demo_libs (demo_env 2000) anon_token"
    "\<not> token_expired demo_libs (demo_env 2000) anon_token"
    by (simp_all add: token_dates_malformed_def token_not_yet_valid_def token_expired_def d)
       (simp_all add: demo_payload_def demo_env_def)
  have e: "pl_userId (demo_payload None) = None"
    by (simp add: demo_payload_def)
  have f: "connected demo_db"
    by (simp add: demo_db_def)
  have g: "filter (matches_undefined demo_libs) (tasks demo_db) = []"
    by (simp add: demo_db_def demo_libs_def)
  from gate_accepts_on_signature_and_expiry [where req = "demo_request (Some anon_token)"
      and tk = anon_token and L = demo_libs and E = "demo_env 2000" and p = "demo_payload None"
      and s = demo_db] a b c d e f
  have "get_tasks demo_libs (demo_env 2000) demo_db (demo_request (Some anon_token))
        = (json 200 (TaskList (filter (matches_undefined demo_libs) (tasks demo_db))),
           called (Task_find_op None) demo_db)"
    by blast
  with a b c d e f g show ?thesis by simp
qed

text \<open>
  The counterexample to C10 as it is stated. Two tokens verify under the server secret,
  are not expired and carry no \<^verbatim>\<open>userId\<close>; the \<^verbatim>\<open>nbf\<close> of the first is 3000 and the
  \<^verbatim>\<open>exp\<close> of the second is a string. At time 2000 both are answered 401
  ``Invalid token'': the header is present, so none of the three reasons of the claim
  holds and yet the request is rejected.
\<close>

theorem gate_accepts_on_signature_and_expiry_counterexample:
  "headers_authorization (demo_request (Some early_token)) = Some early_token
   \<and> signature_verifies demo_libs (demo_env 2000) early_token
   \<and> \<not> token_expired demo_libs (demo_env 2000) early_token
   \<and> map_option pl_userId (jws_decode demo_libs early_token) = Some None
   \<and> authenticate demo_libs (demo_env 2000) (demo_request (Some early_token))
       = Answered (json 401 (Error ''Invalid token''))
   \<and> get_tasks demo_libs (demo_env 2000) demo_db (demo_request (Some early_token))
       = (json 401 (Error ''Invalid token''), demo_db)
   \<and> headers_authorization (demo_request (Some odd_token)) = Some odd_token
   \<and> signature_verifies demo_libs (demo_env 2000) odd_token
   \<and> \<not> token_expired demo_libs (demo_env 2000) odd_token
   \<and> map_option pl_userId (jws_decode demo_libs odd_token) = Some None
   \<and> authenticate demo_libs (demo_env 2000) (demo_request (Some odd_token))
       = Answered (json 401 (Error ''Invalid token''))
   \<and> get_tasks demo_libs (demo_env 2000) demo_db (demo_request (Some odd_token))
       = (json 401 (Error ''Invalid token''), demo_db)"
proof -
  have d: "jws_decode demo_libs early_token
             = Some ((demo_payload None)\<lparr>pl_nbf := Some (JNum 3000)\<rparr>)"
    by (simp add: demo_defs)
  have v: "jwt_verify demo_libs early_token (SECRET_KEY (demo_env 2000)) (clock (demo_env 2000))
             = Inl NotBeforeError"
    using signature_verifies_demo(2) [of 2000]
    by (simp add: jwt_verify_def signature_verifies_def d) (simp add: demo_payload_def demo_env_def)
  have h: "headers_authorization (demo_request (Some early_token)) = Some early_token"
    by (simp add: demo_request_def)
  have nf: "\<not> falsy (headers_authorization (demo_request (Some early_token)))"
    by (simp add: falsy_def demo_request_def early_token_def)
  have a: "authenticate demo_libs (demo_env 2000) (demo_request (Some early_token))
       = Answered (json 401 (Error ''Invalid token''))"
    using nf v by (simp add: authenticate_eq h str_def)
  have e: "\<not> token_expired demo_libs (demo_env 2000) early_token"
    by (simp add: token_expired_def d) (simp add: demo_payload_def demo_env_def)
  from a have g: "get_tasks demo_libs (demo_env 2000) demo_db (demo_request (Some early_token))
       = (json 401 (Error ''Invalid token''), demo_db)"
    by (simp add: get_tasks_def behind_authenticate_Answered)
  have od: "jws_decode demo_libs odd_token
             = Some ((demo_payload None)\<lparr>pl_exp := Some (JStr ''soon'')\<rparr>)"
    by (simp add: demo_defs)
  have ov: "jwt_verify demo_libs odd_token (SECRET_KEY (demo_env 2000)) (clock (demo_env 2000))
             = Inl JsonWebTokenError"
    using signature_verifies_demo(3) [of 2000]
    by (simp add: jwt_verify_def signature_verifies_def od) (simp add: demo_payload_def)
  have oh: "headers_authorization (demo_request (Some odd_token)) = Some odd_token"
    by (simp add: demo_request_def)
  have onf: "\<not> falsy (headers_authorization (demo_request (Some odd_token)))"
    by (simp add: falsy_def demo_request_def odd_token_def)
  have oa: "authenticate demo_libs (demo_env 2000) (demo_request (Some odd_token))
       = Answered (json 401 (Error ''Invalid token''))"
    using onf ov by (simp add: authenticate_eq oh str_def)
  have oe: "\<not> token_expired demo_libs (demo_env 2000) odd_token"
    by (simp add: token_expired_def od)
  from oa have og: "get_tasks demo_libs (demo_env 2000) demo_db (demo_request (Some odd_token))
       = (json 401 (Error ''Invalid token''), demo_db)"
    by (simp add: get_tasks_def behind_authenticate_Answered)
  have p: "map_option pl_userId (jws_decode demo_libs early_token) = Some None"
    "map_option pl_userId (jws_decode demo_libs odd_token) = Some None"
    unfolding d od by (simp_all add: demo_payload_def)
  from h signature_verifies_demo(2) [of 2000] e p(1) a g
    oh signature_verifies_demo(3) [of 2000] oe p(2) oa og
  show ?thesis by simp
qed

lemma post_login_200:
  assumes "fst (post_login L E s r) = json 200 (Token tk)"
  shows "\<exists>u. fst (User_findOne L (js_value (body_username r)) s) = Inr (Some u)
           \<and> tk = jws_sign L \<lparr>pl_userId = Some (user_id u), pl_iat = Some (JNum (real (clock E))),
                                pl_exp = Some (JNum (real (clock E + 3600))), pl_nbf = None\<rparr>
                     (SECRET_KEY E)"
proof (cases "User_findOne L (js_value (body_username r)) s")
  case (Pair found s')
  with assms show ?thesis
    by (auto simp: post_login_def jwt_sign_def json_def
          split: if_splits option.splits sum.splits bool.splits)
qed

lemma protected_routes_Answered:
  assumes "authenticate L E req = Answered res"
  shows "get_tasks L E s req = (res, s)" "post_tasks L E s req = (res, s)"
    "delete_tasks L E s req = (res, s)"
  using assms
  by (simp_all add: get_tasks_def post_tasks_def delete_tasks_def behind_authenticate_Answered)

lemma authenticate_expired:
  assumes "headers_authorization req = Some h" and "isValidJws h" and "jws_decode L h = Some p"
    and "pl_exp p = Some (JNum e)" and "e \<le> real (clock E)"
  shows "authenticate L E req = Answered (json 401 (Error ''Invalid token''))"
proof -
  from assms(2) have "h \<noteq> []" by (auto simp: isValidJws_def)
  with assms(1) have nf: "\<not> falsy (headers_authorization req)" by (simp add: falsy_def)
  from jwt_verify_expired [OF assms(3) assms(4) assms(5)]
  obtain err where "jwt_verify L h (SECRET_KEY E) (clock E) = Inl err" by blast
  with assms(1) nf show ?thesis by (simp add: authenticate_eq str_def)
qed

lemma authenticate_round_trip:
  assumes "jws_round_trip L p k" and "headers_authorization req = Some (jws_sign L p k)"
    and "SECRET_KEY E = k" and "pl_exp p = Some (JNum e)" and "pl_nbf p = None"
  shows "authenticate L E req =
           (if e \<le> real (clock E) then Answered (json 401 (Error ''Invalid token''))
            else Next (req\<lparr>req_userId := pl_userId p\<rparr>))"
proof -
  from assms(1) have v: "isValidJws (jws_sign L p k)" and d: "jws_decode L (jws_sign L p k) = Some p"
    and g: "jws_verify L (jws_sign L p k) k"
    by (simp_all add: jws_round_trip_def)
  from v have "jws_sign L p k \<noteq> []" by (auto simp: isValidJws_def)
  with assms(2) have nf: "\<not> falsy (headers_authorization req)" by (simp add: falsy_def)
  from v d g assms(3) assms(4) assms(5)
  have "jwt_verify L (jws_sign L p k) (SECRET_KEY E) (clock E)
          = (if e \<le> real (clock E) then Inl TokenExpiredError else Inr p)"
    by (simp add: jwt_verify_def)
  with nf assms(2) show ?thesis by (simp add: authenticate_eq str_def)
qed

text \<open>
  Claim C3 (token expiry). A token issued by Login is the signed payload with the id of
  the user found, the time of issue and an expiry 3600 seconds later. Each protected
  route answers 401 ``Invalid token'', leaving the store as it was, to a token that has
  the shape of a token, verifies under the server secret and whose expiry is not after
  the clock. For the token of a login whose payload the library reads back, under the
  same secret: the gate answers 401 from 3600 seconds after the issue on, and before
  that it passes the request on with the id of that user.
\<close>

theorem token_expiry:
  "(fst (post_login L E sl rl) = json 200 (Token tk) \<longrightarrow>
      (\<exists>u. fst (User_findOne L (js_value (body_username rl)) sl) = Inr (Some u)
          \<and> tk = jws_sign L \<lparr>pl_userId = Some (user_id u), pl_iat = Some (JNum (real (clock E))),
                               pl_exp = Some (JNum (real (clock E + 3600))), pl_nbf = None\<rparr>
                    (SECRET_KEY E)))
   \<and> (headers_authorization req = Some h \<and> isValidJws h \<and> jws_decode L h = Some p
        \<and> jws_verify L h (SECRET_KEY E') \<and> pl_exp p = Some (JNum e) \<and> e \<le> real (clock E') \<longrightarrow>
       get_tasks L E' s req = (json 401 (Error ''Invalid token''), s)
       \<and> post_tasks L E' s req = (json 401 (Error ''Invalid token''), s)
       \<and> delete_tasks L E' s req = (json 401 (Error ''Invalid token''), s))
   \<and> (fst (post_login L E sl rl) = json 200 (Token tk)
        \<and> fst (User_findOne L (js_value (body_username rl)) sl) = Inr (Some u)
        \<and> jws_round_trip L \<lparr>pl_userId = Some (user_id u), pl_iat = Some (JNum (real (clock E))),
                              pl_exp = Some (JNum (real (clock E + 3600))), pl_nbf = None\<rparr>
                   (SECRET_KEY E)
        \<and> SECRET_KEY E' = SECRET_KEY E \<and> headers_authorization req' = Some tk \<longrightarrow>
       authenticate L E' req' =
         (if clock E + 3600 \<le> clock E' then Answered (json 401 (Error ''Invalid token''))
          else Next (req'\<lparr>req_userId := Some (user_id u)\<rparr>)))"
proof (intro conjI impI)
  assume "fst (post_login L E sl rl) = json 200 (Token tk)"
  then show "\<exists>u. fst (User_findOne L (js_value (body_username rl)) sl) = Inr (Some u)
          \<and> tk = jws_sign L \<lparr>pl_userId = Some (user_id u), pl_iat = Some (JNum (real (clock E))),
                               pl_exp = Some (JNum (real (clock E + 3600))), pl_nbf = None\<rparr>
                    (SECRET_KEY E)"
    using post_login_200 by blast
next
  assume a: "headers_authorization req = Some h \<and> isValidJws h \<and> jws_decode L h = Some p
        \<and> jws_verify L h (SECRET_KEY E') \<and> pl_exp p = Some (JNum e) \<and> e \<le> real (clock E')"
  then have r: "authenticate L E' req = Answered (json 401 (Error ''Invalid token''))"
    by (intro authenticate_expired [of req h L p e E']) simp_all
  from r show "get_tasks L E' s req = (json 401 (Error ''Invalid token''), s)"
    by (rule protected_routes_Answered)
  from r show "post_tasks L E' s req = (json 401 (Error ''Invalid token''), s)"
    by (rule protected_routes_Answered)
  from r show "delete_tasks L E' s req = (json 401 (Error ''Invalid token''), s)"
    by (rule protected_routes_Answered)
next
  let ?p = "\<lparr>pl_userId = Some (user_id u), pl_iat = Some (JNum (real (clock E))),
             pl_exp = Some (JNum (real (clock E + 3600))), pl_nbf = None\<rparr>"
  assume a: "fst (post_login L E sl rl) = json 200 (Token tk)
        \<and> fst (User_findOne L (js_value (body_username rl)) sl) = Inr (Some u)
        \<and> jws_round_trip L ?p (SECRET_KEY E)
        \<and> SECRET_KEY E' = SECRET_KEY E \<and> headers_authorization req' = Some tk"
  with post_login_200 [of L E sl rl tk] have tk: "tk = jws_sign L ?p (SECRET_KEY E)"
    by auto
  from a tk have "authenticate L E' req' =
           (if real (clock E + 3600) \<le> real (clock E')
            then Answered (json 401 (Error ''Invalid token''))
            else Next (req'\<lparr>req_userId := pl_userId ?p\<rparr>))"
    by (intro authenticate_round_trip) simp_all
  then show "authenticate L E' req' =
         (if clock E + 3600 \<le> clock E' then Answered (json 401 (Error ''Invalid token''))
          else Next (req'\<lparr>req_userId := Some (user_id u)\<rparr>))"
    by simp
qed

lemma post_login_demo:
  "fst (post_login demo_libs (demo_env 1000) demo_db (demo_login ''alice'' ''pw1''))
     = json 200 (Token alice_token)"
  by (simp add: post_login_def User_findOne_def username_filter_def bcrypt_compare_js_def
        jwt_sign_def falsy_json_def js_value_def SECRET_KEY_default demo_login_def
        demo_login_json_def demo_db_def demo_libs_def)

theorem token_expiry_witness:
  "fst (post_login demo_libs (demo_env 1000) demo_db (demo_login ''alice'' ''pw1''))
     = json 200 (Token alice_token)
   \<and> get_tasks demo_libs (demo_env 4600) demo_db (demo_request (Some alice_token))
       = (json 401 (Error ''Invalid token''), demo_db)
   \<and> authenticate demo_libs (demo_env 4599) (demo_request (Some alice_token))
       = Next ((demo_request (Some alice_token))\<lparr>req_userId := Some 0\<rparr>)
   \<and> authenticate demo_libs (demo_env 4600) (demo_request (Some alice_token))
       = Answered (json 401 (Error ''Invalid token''))"
proof -
  let ?u = "\<lparr>user_id = 0, username = ''alice'', password = ''$s4lt$pw1''\<rparr>"
  let ?p = "\<lparr>pl_userId = Some (user_id ?u), pl_iat = Some (JNum (real (clock (demo_env 1000)))),
             pl_exp = Some (JNum (real (clock (demo_env 1000) + 3600))), pl_nbf = None\<rparr>"
  have f: "fst (User_findOne demo_libs (js_value (body_username (demo_login ''alice'' ''pw1'')))
                  demo_db) = Inr (Some ?u)"
    by (simp add: User_findOne_def username_filter_def js_value_def demo_login_def
          demo_login_json_def demo_db_def)
  have k: "SECRET_KEY (demo_env n) = ''your_secret_key''" for n
    by (simp add: SECRET_KEY_def falsy_def demo_env_def)
  have p: "?p = demo_payload (Some 0)"
    by (simp add: demo_payload_def demo_env_def)
  have s: "jws_sign demo_libs (demo_payload (Some 0)) ''your_secret_key'' = alice_token"
    by (simp add: demo_libs_def demo_payload_def)
  have rt: "jws_round_trip demo_libs ?p (SECRET_KEY (demo_env 1000))"
    unfolding p k jws_round_trip_def s by (simp add: demo_libs_def)
  have h: "headers_authorization (demo_request (Some alice_token)) = Some alice_token"
    by (simp add: demo_request_def)
  have d: "jws_decode demo_libs alice_token = Some (demo_payload (Some 0))"
    by (simp add: demo_libs_def)
  have v: "jws_verify demo_libs alice_token (SECRET_KEY (demo_env 4600))"
    unfolding k by (simp add: demo_libs_def)
  have e: "pl_exp (demo_payload (Some 0)) = Some (JNum 4600)" "(4600::real) \<le> real (clock (demo_env 4600))"
    by (simp_all add: demo_payload_def demo_env_def)
  note T1 = token_expiry [where L = demo_libs and E = "demo_env 1000" and sl = demo_db
      and rl = "demo_login ''alice'' ''pw1''" and tk = alice_token and u = ?u
      and req = "demo_request (Some alice_token)" and h = alice_token
      and p = "demo_payload (Some 0)" and e = 4600 and E' = "demo_env 4600" and s = demo_db
      and req' = "demo_request (Some alice_token)"]
  note T2 = token_expiry [where L = demo_libs and E = "demo_env 1000" and sl = demo_db
      and rl = "demo_login ''alice'' ''pw1''" and tk = alice_token and u = ?u
      and E' = "demo_env 4599" and req' = "demo_request (Some alice_token)"]
  from T1 h d v e have 1: "get_tasks demo_libs (demo_env 4600) demo_db (demo_request (Some alice_token))
       = (json 401 (Error ''Invalid token''), demo_db)"
    by simp
  have ks: "SECRET_KEY (demo_env 4599) = SECRET_KEY (demo_env 1000)"
    "SECRET_KEY (demo_env 4600) = SECRET_KEY (demo_env 1000)"
    by (simp_all add: k)
  from T2 post_login_demo f rt ks h
  have "authenticate demo_libs (demo_env 4599) (demo_request (Some alice_token)) =
         (if clock (demo_env 1000) + 3600 \<le> clock (demo_env 4599)
          then Answered (json 401 (Error ''Invalid token''))
          else Next ((demo_request (Some alice_token))\<lparr>req_userId := Some (user_id ?u)\<rparr>))"
    by blast
  then have 2: "authenticate demo_libs (demo_env 4599) (demo_request (Some alice_token))
       = Next ((demo_request (Some alice_token))\<lparr>req_userId := Some 0\<rparr>)"
    by (simp add: demo_env_def)
  from T1 post_login_demo f rt ks h
  have "authenticate demo_libs (demo_env 4600) (demo_request (Some alice_token)) =
         (if clock (demo_env 1000) + 3600 \<le> clock (demo_env 4600)
          then Answered (json 401 (Error ''Invalid token''))
          else Next ((demo_request (Some alice_token))\<lparr>req_userId := Some (user_id ?u)\<rparr>))"
    by blast
  then have 3: "authenticate demo_libs (demo_env 4600) (demo_request (Some alice_token))
       = Answered (json 401 (Error ''Invalid token''))"
    by (simp add: demo_env_def)
  from post_login_demo 1 2 3 show ?thesis by simp
qed

subsection \<open>The invariant of the store\<close>

text \<open>\<open>wf_db\<close> holds of the empty store and every route keeps it.\<close>

lemma called_simps [simp]:
  "connected (called c s) = connected s" "users (called c s) = users s"
  "tasks (called c s) = tasks s" "next_id (called c s) = next_id s"
  "calls (called c s) = calls s @ [c]"
  by (simp_all add: called_def)

lemma wf_db_called [simp]: "wf_db (called c s) = wf_db s"
  by (simp add: wf_db_def)

lemma status_json [simp]: "status (json c b) = c" "body (json c b) = b"
  by (simp_all add: json_def)

lemma json_eq_iff [simp]: "json c b = json c' b' \<longleftrightarrow> c = c' \<and> b = b'"
  by (simp add: json_def)

lemma wf_db_empty: "wf_db empty_db"
  by (simp add: wf_db_def empty_db_def)

lemma distinct_map_remove1: "distinct (map f xs) \<Longrightarrow> distinct (map f (remove1 x xs))"
proof (induction xs)
  case Nil
  show ?case by simp
next
  case (Cons a xs)
  have "set (remove1 x xs) \<subseteq> set xs" by (rule set_remove1_subset)
  with Cons show ?case by auto
qed

lemma list_all_remove1: "list_all P xs \<Longrightarrow> list_all P (remove1 x xs)"
  by (induction xs) auto

text \<open>The two calls on the model of users: a lookup leaves the store as it was, a save
  that is rejected leaves users and tasks as they were, a save that is accepted appends
  one user with a new id and a name that was not there.\<close>

lemma User_findOne_effect:
  "snd (User_findOne L v s) = called (User_findOne_op v) s"
  by (simp add: User_findOne_def split: option.splits)

lemma User_save_effect:
  assumes "User_save L v hashed s = (r, s')"
  shows "(\<exists>err. r = Inl err \<and> s' = called (User_save_op v) s)
       \<or> (\<exists>name. r = Inr \<lparr>user_id = next_id s, username = name, password = hashed\<rparr>
              \<and> cast_username L v = Some name \<and> name \<noteq> [] \<and> connected s
              \<and> name \<notin> username ` set (users s)
              \<and> s' = called (User_save_op v)
                        (s\<lparr>users := users s @ [\<lparr>user_id = next_id s, username = name,
                                                    password = hashed\<rparr>],
                           next_id := Suc (next_id s)\<rparr>))"
  using assms by (auto simp: User_save_def Let_def split: option.splits if_splits)

lemma wf_db_User_save: "wf_db s \<Longrightarrow> wf_db (snd (User_save L v hashed s))"
proof -
  assume wf: "wf_db s"
  obtain r s' where rs: "User_save L v hashed s = (r, s')" by (cases "User_save L v hashed s")
  from User_save_effect [OF rs] show ?thesis
  proof (elim disjE exE conjE)
    fix err assume "s' = called (User_save_op v) s"
    with wf show ?thesis unfolding rs by simp
  next
    fix name
    assume n: "name \<noteq> []" "name \<notin> username ` set (users s)"
      and s': "s' = called (User_save_op v)
                        (s\<lparr>users := users s @ [\<lparr>user_id = next_id s, username = name,
                                                    password = hashed\<rparr>],
                           next_id := Suc (next_id s)\<rparr>)"
    from wf have "next_id s \<notin> user_id ` set (users s)"
      by (auto simp: wf_db_def list_all_iff)
    with wf n show ?thesis
      unfolding rs s' by (auto simp: wf_db_def list_all_iff less_Suc_eq)
  qed
qed

lemma wf_db_post_register: "wf_db s \<Longrightarrow> wf_db (snd (post_register L E s req))"
proof -
  assume wf: "wf_db s"
  show ?thesis
  proof (cases "falsy_json (body_username req) \<or> falsy_json (body_password req)")
    case True
    with wf show ?thesis by (simp add: post_register_def)
  next
    case False
    show ?thesis
    proof (cases "bcrypt_hash_js L (js_value (body_password req)) (salt E)")
      case (Inl err)
      with False wf show ?thesis by (simp add: post_register_def)
    next
      case (Inr hashed)
      obtain r s' where rs: "User_save L (js_value (body_username req)) hashed s = (r, s')"
        by (cases "User_save L (js_value (body_username req)) hashed s")
      with wf_db_User_save [OF wf, of L "js_value (body_username req)" hashed]
      have "wf_db s'" by simp
      with False Inr rs show ?thesis
        by (simp add: post_register_def split: sum.splits)
    qed
  qed
qed

lemma wf_db_post_login: "wf_db s \<Longrightarrow> wf_db (snd (post_login L E s req))"
proof -
  assume wf: "wf_db s"
  obtain r s' where rs: "User_findOne L (js_value (body_username req)) s = (r, s')"
    by (cases "User_findOne L (js_value (body_username req)) s")
  with User_findOne_effect [of L "js_value (body_username req)" s]
  have "s' = called (User_findOne_op (js_value (body_username req))) s" by simp
  with wf rs show ?thesis
    by (auto simp: post_login_def split: sum.splits option.splits bool.splits)
qed

lemma wf_db_get_tasks_handler: "wf_db s \<Longrightarrow> wf_db (snd (get_tasks_handler L s req))"
  by (auto simp: get_tasks_handler_def Task_find_def)

lemma wf_db_post_tasks_handler: "wf_db s \<Longrightarrow> wf_db (snd (post_tasks_handler L s req))"
  by (auto simp: post_tasks_handler_def Task_save_def wf_db_def Let_def list_all_iff)

lemma wf_db_delete_tasks_handler: "wf_db s \<Longrightarrow> wf_db (snd (delete_tasks_handler L s req))"
  by (auto simp: delete_tasks_handler_def Task_findOneAndDelete_def wf_db_def
        distinct_map_remove1 list_all_remove1 split: option.splits)

lemma wf_db_behind_authenticate:
  assumes "\<And>s req. wf_db s \<Longrightarrow> wf_db (snd (handler s req))" and "wf_db s"
  shows "wf_db (snd (behind_authenticate L E handler s req))"
  using assms by (simp add: behind_authenticate_def split: auth_outcome.splits)

lemma wf_db_routes:
  assumes "wf_db s"
  shows "wf_db (snd (get_tasks L E s req))" "wf_db (snd (post_tasks L E s req))"
    "wf_db (snd (delete_tasks L E s req))"
  using assms
  by (simp_all add: get_tasks_def post_tasks_def delete_tasks_def wf_db_behind_authenticate
        wf_db_get_tasks_handler wf_db_post_tasks_handler wf_db_delete_tasks_handler)

subsection \<open>Login\<close>

lemma User_findOne_string:
  "connected s \<Longrightarrow>
     User_findOne L (JStr name) s
       = (Inr (find (\<lambda>u. username u = name) (users s)), called (User_findOne_op (JStr name)) s)"
  by (simp add: User_findOne_def username_filter_def)

lemma post_login_unknown:
  assumes "body_username req = Some (JStr name)" and "name \<noteq> []"
    and "\<not> falsy_json (body_password req)" and "connected s"
    and "name \<notin> username ` set (users s)"
  shows "post_login L E s req
           = (json 401 (Error ''Invalid username or password''),
              called (User_findOne_op (JStr name)) s)"
proof -
  from assms(5) have "find (\<lambda>u. username u = name) (users s) = None"
    by (force simp: find_None_iff)
  with assms(1-4) show ?thesis
    by (simp add: post_login_def User_findOne_string falsy_json_def js_value_def)
qed

lemma post_login_mismatch:
  assumes "body_username req = Some (JStr name)" and "name \<noteq> []"
    and "body_password req = Some (JStr pw)" and "pw \<noteq> []" and "connected s"
    and "find (\<lambda>u. username u = name) (users s) = Some u"
    and "\<not> bcrypt_compare L pw (password u)"
  shows "post_login L E s req
           = (json 401 (Error ''Invalid username or password''),
              called (User_findOne_op (JStr name)) s)"
  using assms
  by (simp add: post_login_def User_findOne_string bcrypt_compare_js_def falsy_json_def
        js_value_def)

text \<open>When the password is a string, an unknown username and a wrong password get the
  same answer.\<close>

lemma post_login_strings_same_answer:
  assumes "body_username ra = Some (JStr na)" and "na \<noteq> []"
    and "\<not> falsy_json (body_password ra)" and "connected sa"
    and "na \<notin> username ` set (users sa)"
    and "body_username rb = Some (JStr nb)" and "nb \<noteq> []"
    and "body_password rb = Some (JStr pw)" and "pw \<noteq> []" and "connected sb"
    and "find (\<lambda>u. username u = nb) (users sb) = Some u"
    and "\<not> bcrypt_compare L pw (password u)"
  shows "fst (post_login L Ea sa ra) = json 401 (Error ''Invalid username or password'')
       \<and> fst (post_login L Eb sb rb) = fst (post_login L Ea sa ra)"
  using post_login_unknown [OF assms(1-5), of L Ea] post_login_mismatch [OF assms(6-12), of Eb]
  by simp

text \<open>When the password is not a string, \<^verbatim>\<open>bcrypt.compare\<close> throws for a user that
  exists, and the \<^verbatim>\<open>catch\<close> answers 500.\<close>

lemma post_login_password_not_a_string:
  assumes "body_username req = Some (JStr name)" and "name \<noteq> []"
    and "body_password req = Some v" and "truthy v" and "\<forall>pw. v \<noteq> JStr pw"
    and "connected s" and "find (\<lambda>u. username u = name) (users s) = Some u"
  shows "post_login L E s req
           = (json 500 (Error ''Failed to log in''), called (User_findOne_op (JStr name)) s)"
proof -
  from assms(5) have "bcrypt_compare_js L v (password u) = Inl IllegalArguments"
    by (cases v) (simp_all add: bcrypt_compare_js_def)
  with assms show ?thesis
    by (simp add: post_login_def User_findOne_string falsy_json_def js_value_def)
qed

text \<open>
  Claim C4 (login failure does not leak) fails on the code. The handler gives one
  answer, 401 ``Invalid username or password'', to an unknown username and to a wrong
  password, but only while \<^verbatim>\<open>bcrypt.compare\<close> returns: with the password 123, a
  number, the username carol, who is not in the store, is answered 401, and the
  username alice, who is, is answered 500 ``Failed to log in''. Both requests have
  non-empty fields, and the two answers tell whether the username exists.
\<close>

theorem login_failure_leak:
  "\<not> falsy_json (body_username (demo_login_json (JStr ''carol'') (JNum 123)))
   \<and> \<not> falsy_json (body_password (demo_login_json (JStr ''carol'') (JNum 123)))
   \<and> \<not> falsy_json (body_username (demo_login_json (JStr ''alice'') (JNum 123)))
   \<and> \<not> falsy_json (body_password (demo_login_json (JStr ''alice'') (JNum 123)))
   \<and> ''carol'' \<notin> username ` set (users demo_db)
   \<and> ''alice'' \<in> username ` set (users demo_db)
   \<and> fst (post_login demo_libs (demo_env 1000) demo_db (demo_login_json (JStr ''carol'') (JNum 123)))
       = json 401 (Error ''Invalid username or password'')
   \<and> fst (post_login demo_libs (demo_env 1000) demo_db (demo_login_json (JStr ''alice'') (JNum 123)))
       = json 500 (Error ''Failed to log in'')
   \<and> fst (post_login demo_libs (demo_env 1000) demo_db (demo_login_json (JStr ''alice'') (JNum 123)))
       \<noteq> fst (post_login demo_libs (demo_env 1000) demo_db
                (demo_login_json (JStr ''carol'') (JNum 123)))"
  by (simp add: post_login_def User_findOne_def username_filter_def bcrypt_compare_js_def
        falsy_json_def js_value_def demo_login_json_def demo_db_def)

subsection \<open>Register\<close>

lemma bcrypt_hash_js_string: "bcrypt_hash_js L (JStr pw) sl = Inr (CHR ''$'' # bcrypt_hash L pw sl)"
  by (simp add: bcrypt_hash_js_def)

lemma User_save_duplicate:
  "connected s \<Longrightarrow> name \<noteq> [] \<Longrightarrow> hashed \<noteq> [] \<Longrightarrow> name \<in> username ` set (users s) \<Longrightarrow>
     User_save L (JStr name) hashed s
       = (Inl (MongoServerError 11000), called (User_save_op (JStr name)) s)"
  by (simp add: User_save_def cast_username_def)

lemma User_save_disconnected:
  "\<not> connected s \<Longrightarrow> name \<noteq> [] \<Longrightarrow> hashed \<noteq> [] \<Longrightarrow>
     User_save L (JStr name) hashed s = (Inl ConnectionError, called (User_save_op (JStr name)) s)"
  by (simp add: User_save_def cast_username_def)

lemma post_register_duplicate:
  assumes "connected s" and "body_username req = Some (JStr name)" and "name \<noteq> []"
    and "name \<in> username ` set (users s)" and "body_password req = Some (JStr pw)" and "pw \<noteq> []"
  shows "post_register L E s req
           = (json 400 (Error ''Username already exists''), called (User_save_op (JStr name)) s)"
  using assms
  by (simp add: post_register_def falsy_json_def js_value_def bcrypt_hash_js_string
        User_save_duplicate register_catch_def)

lemma post_register_required:
  "falsy_json (body_username req) \<or> falsy_json (body_password req) \<Longrightarrow>
     post_register L E s req = (json 400 (Error ''Username and password are required''), s)"
  by (simp add: post_register_def)

lemma post_register_disconnected:
  assumes "\<not> connected s" and "body_username req = Some (JStr name)" and "name \<noteq> []"
    and "body_password req = Some (JStr pw)" and "pw \<noteq> []"
  shows "post_register L E s req
           = (json 500 (Error ''Failed to register user''), called (User_save_op (JStr name)) s)"
  using assms
  by (simp add: post_register_def falsy_json_def js_value_def bcrypt_hash_js_string
        User_save_disconnected register_catch_def)

text \<open>When the password is not a string, \<^verbatim>\<open>bcrypt.hash\<close> throws and the \<^verbatim>\<open>catch\<close>
  answers 500 before the store is called.\<close>

lemma post_register_password_not_a_string:
  assumes "\<not> falsy_json (body_username req)" and "body_password req = Some v" and "truthy v"
    and "\<forall>pw. v \<noteq> JStr pw"
  shows "post_register L E s req = (json 500 (Error ''Failed to register user''), s)"
proof -
  from assms(4) have "bcrypt_hash_js L v (salt E) = Inl IllegalArguments"
    by (cases v) (simp_all add: bcrypt_hash_js_def)
  with assms show ?thesis
    by (simp add: post_register_def falsy_json_def js_value_def register_catch_def)
qed

text \<open>
  Claim C5, as amended (duplicate registration). A Register with a non-empty username
  string that is already among the users and a non-empty password string, on a store
  that answers, is answered 400 ``Username already exists''; the answer comes from the
  duplicate-key error (code 11000) of the save, which is the only call made on the store
  (no lookup precedes it), and the users are as they were. When the username or the
  password is empty or absent, the request is answered 400 ``Username and password are
  required'' and the store is not called. When the store does not answer, a Register
  with non-empty strings is answered 500 ``Failed to register user'' and the users are
  as they were.
\<close>

theorem duplicate_registration:
  "(connected s \<and> body_username req = Some (JStr name) \<and> name \<noteq> []
      \<and> name \<in> username ` set (users s)
      \<and> body_password req = Some (JStr pw) \<and> pw \<noteq> [] \<longrightarrow>
        post_register L E s req
          = (json 400 (Error ''Username already exists''), called (User_save_op (JStr name)) s)
        \<and> fst (User_save L (JStr name) (CHR ''$'' # bcrypt_hash L pw (salt E)) s)
            = Inl (MongoServerError 11000)
        \<and> users (snd (post_register L E s req)) = users s
        \<and> calls (snd (post_register L E s req)) = calls s @ [User_save_op (JStr name)])
   \<and> (falsy_json (body_username req) \<or> falsy_json (body_password req) \<longrightarrow>
        post_register L E s req = (json 400 (Error ''Username and password are required''), s))
   \<and> (\<not> connected s \<and> body_username req = Some (JStr name) \<and> name \<noteq> []
      \<and> body_password req = Some (JStr pw) \<and> pw \<noteq> [] \<longrightarrow>
        fst (post_register L E s req) = json 500 (Error ''Failed to register user'')
        \<and> users (snd (post_register L E s req)) = users s)"
proof (intro conjI impI)
  assume a: "connected s \<and> body_username req = Some (JStr name) \<and> name \<noteq> []
      \<and> name \<in> username ` set (users s)
      \<and> body_password req = Some (JStr pw) \<and> pw \<noteq> []"
  then have r: "post_register L E s req
          = (json 400 (Error ''Username already exists''), called (User_save_op (JStr name)) s)"
    using post_register_duplicate [where s = s and req = req and name = name and pw = pw] by blast
  then show "post_register L E s req
          = (json 400 (Error ''Username already exists''), called (User_save_op (JStr name)) s)" .
  from a show "fst (User_save L (JStr name) (CHR ''$'' # bcrypt_hash L pw (salt E)) s)
            = Inl (MongoServerError 11000)"
    by (simp add: User_save_duplicate)
  from r show "users (snd (post_register L E s req)) = users s" by simp
  from r show "calls (snd (post_register L E s req)) = calls s @ [User_save_op (JStr name)]"
    by simp
next
  assume "falsy_json (body_username req) \<or> falsy_json (body_password req)"
  then show "post_register L E s req = (json 400 (Error ''Username and password are required''), s)"
    by (rule post_register_required)
next
  assume a: "\<not> connected s \<and> body_username req = Some (JStr name) \<and> name \<noteq> []
      \<and> body_password req = Some (JStr pw) \<and> pw \<noteq> []"
  then have r: "post_register L E s req
           = (json 500 (Error ''Failed to register user''), called (User_save_op (JStr name)) s)"
    using post_register_disconnected [where s = s and req = req and name = name and pw = pw] by blast
  from r show "fst (post_register L E s req) = json 500 (Error ''Failed to register user'')"
    by simp
  from r show "users (snd (post_register L E s req)) = users s" by simp
qed

lemma wf_db_demo: "wf_db demo_db"
  by (simp add: wf_db_def demo_db_def)

theorem duplicate_registration_witness:
  "connected demo_db
   \<and> body_username (demo_login ''alice'' ''other'') = Some (JStr ''alice'')
   \<and> ''alice'' \<in> username ` set (users demo_db)
   \<and> body_password (demo_login ''alice'' ''other'') = Some (JStr ''other'')
   \<and> post_register demo_libs (demo_env 1000) demo_db (demo_login ''alice'' ''other'')
       = (json 400 (Error ''Username already exists''),
          called (User_save_op (JStr ''alice'')) demo_db)
   \<and> falsy_json (body_password (demo_login ''alice'' []))
   \<and> post_register demo_libs (demo_env 1000) demo_db (demo_login ''alice'' [])
       = (json 400 (Error ''Username and password are required''), demo_db)
   \<and> \<not> connected (demo_db\<lparr>connected := False\<rparr>)
   \<and> fst (post_register demo_libs (demo_env 1000) (demo_db\<lparr>connected := False\<rparr>)
             (demo_login ''alice'' ''other''))
       = json 500 (Error ''Failed to register user'')"
proof -
  have a: "connected demo_db" by (simp add: demo_db_def)
  have b: "body_username (demo_login ''alice'' ''other'') = Some (JStr ''alice'')"
    "body_password (demo_login ''alice'' ''other'') = Some (JStr ''other'')"
    by (simp_all add: demo_login_def demo_login_json_def)
  have c: "''alice'' \<in> username ` set (users demo_db)" by (simp add: demo_db_def)
  have n: "''alice'' \<noteq> []" "''other'' \<noteq> []" by simp_all
  have f: "falsy_json (body_password (demo_login ''alice'' []))"
    by (simp add: falsy_json_def demo_login_def demo_login_json_def)
  have d: "\<not> connected (demo_db\<lparr>connected := False\<rparr>)" by simp
  note Da = duplicate_registration [where s = demo_db and req = "demo_login ''alice'' ''other''"
      and name = "''alice''" and pw = "''other''" and L = demo_libs and E = "demo_env 1000"]
  note Db = duplicate_registration [where s = demo_db and req = "demo_login ''alice'' []"
      and L = demo_libs and E = "demo_env 1000"]
  note Dc = duplicate_registration [where s = "demo_db\<lparr>connected := False\<rparr>"
      and req = "demo_login ''alice'' ''other''"
      and name = "''alice''" and pw = "''other''" and L = demo_libs and E = "demo_env 1000"]
  from Da a b c n have 1: "post_register demo_libs (demo_env 1000) demo_db (demo_login ''alice'' ''other'')
       = (json 400 (Error ''Username already exists''),
          called (User_save_op (JStr ''alice'')) demo_db)"
    by blast
  from Db f have 2: "post_register demo_libs (demo_env 1000) demo_db (demo_login ''alice'' [])
       = (json 400 (Error ''Username and password are required''), demo_db)"
    by blast
  from Dc d b n have 3: "fst (post_register demo_libs (demo_env 1000) (demo_db\<lparr>connected := False\<rparr>)
             (demo_login ''alice'' ''other''))
       = json 500 (Error ''Failed to register user'')"
    by blast
  from a b c f d 1 2 3 show ?thesis by simp
qed

text \<open>
  The counterexample to C5 as it is stated. The username alice is present. With the
  empty password the answer is the 400 of the check of the fields; on a store that
  does not answer the answer to the password ``other'' is 500; and the answer to the
  password 123, a number, is 500: none is ``Username already exists''.
\<close>

theorem duplicate_registration_counterexample:
  "''alice'' \<in> username ` set (users demo_db)
   \<and> fst (post_register demo_libs (demo_env 1000) demo_db (demo_login ''alice'' []))
       = json 400 (Error ''Username and password are required'')
   \<and> fst (post_register demo_libs (demo_env 1000) demo_db (demo_login ''alice'' []))
       \<noteq> json 400 (Error ''Username already exists'')
   \<and> fst (post_register demo_libs (demo_env 1000) (demo_db\<lparr>connected := False\<rparr>)
             (demo_login ''alice'' ''other''))
       = json 500 (Error ''Failed to register user'')
   \<and> fst (post_register demo_libs (demo_env 1000) (demo_db\<lparr>connected := False\<rparr>)
             (demo_login ''alice'' ''other''))
       \<noteq> json 400 (Error ''Username already exists'')
   \<and> fst (post_register demo_libs (demo_env 1000) demo_db
             (demo_login_json (JStr ''alice'') (JNum 123)))
       = json 500 (Error ''Failed to register user'')
   \<and> fst (post_register demo_libs (demo_env 1000) demo_db
             (demo_login_json (JStr ''alice'') (JNum 123)))
       \<noteq> json 400 (Error ''Username already exists'')"
proof -
  have 1: "fst (post_register demo_libs (demo_env 1000) demo_db (demo_login ''alice'' []))
       = json 400 (Error ''Username and password are required'')"
    by (simp add: post_register_def falsy_json_def demo_login_def demo_login_json_def)
  have "post_register demo_libs (demo_env 1000) (demo_db\<lparr>connected := False\<rparr>)
             (demo_login ''alice'' ''other'')
       = (json 500 (Error ''Failed to register user''),
          called (User_save_op (JStr ''alice'')) (demo_db\<lparr>connected := False\<rparr>))"
    by (rule post_register_disconnected [where pw = "''other''"])
       (simp_all add: demo_login_def demo_login_json_def)
  then have 2: "fst (post_register demo_libs (demo_env 1000) (demo_db\<lparr>connected := False\<rparr>)
             (demo_login ''alice'' ''other''))
       = json 500 (Error ''Failed to register user'')"
    by simp
  have 3: "''alice'' \<in> username ` set (users demo_db)" by (simp add: demo_db_def)
  have 4: "fst (post_register demo_libs (demo_env 1000) demo_db
             (demo_login_json (JStr ''alice'') (JNum 123)))
       = json 500 (Error ''Failed to register user'')"
    by (simp add: post_register_def bcrypt_hash_js_def falsy_json_def js_value_def
          register_catch_def demo_login_json_def)
  from 1 2 3 4 show ?thesis by simp
qed

subsection \<open>Create\<close>

lemma authenticate_Next_fields:
  assumes "authenticate L E req = Next req'"
  shows "body_text req' = body_text req" "params_id req' = params_id req"
  using assms by (auto simp: authenticate_Next_iff)

lemma post_tasks_handler_empty:
  "falsy (body_text req) \<Longrightarrow>
     post_tasks_handler L s req = (json 400 (Error ''Task text is required''), s)"
  by (simp add: post_tasks_handler_def)

lemma post_tasks_handler_saved:
  assumes "body_text req = Some content" and "content \<noteq> []" and "connected s"
  shows "post_tasks_handler L s req
           = (json 201 (TaskDoc \<lparr>task_id = next_id s, task_text = content, completed = False,
                                  userId = req_userId req\<rparr>),
              called (Task_save_op (req_userId req))
                (s\<lparr>tasks := tasks s @ [\<lparr>task_id = next_id s, task_text = content, completed = False,
                                          userId = req_userId req\<rparr>],
                   next_id := Suc (next_id s)\<rparr>))"
  using assms by (simp add: post_tasks_handler_def Task_save_def falsy_def str_def Let_def)

lemma wf_db_next_id_fresh: "wf_db s \<Longrightarrow> next_id s \<notin> task_id ` set (tasks s)"
  by (auto simp: wf_db_def list_all_iff)

text \<open>
  Claim C6 (postcondition of Create). For a request that passed the gate: with an empty
  (or absent) text the route answers 400 ``Task text is required'' and the store is as
  it was; with a non-empty text, the store answering, it answers 201 with the new task,
  whose id is the one the store drew, whose owner is the authenticated id, whose text is
  the text supplied and which is not completed; the tasks are the old ones followed by
  that task, the users are as they were, and the id is new when \<open>wf_db\<close> holds.
\<close>

theorem create_postcondition:
  "(authenticate L E req = Next req' \<and> falsy (body_text req) \<longrightarrow>
      post_tasks L E s req = (json 400 (Error ''Task text is required''), s))
   \<and> (authenticate L E req = Next req' \<and> body_text req = Some content \<and> content \<noteq> [] \<and> connected s
        \<and> t = \<lparr>task_id = next_id s, task_text = content, completed = False, userId = req_userId req'\<rparr>
      \<longrightarrow> fst (post_tasks L E s req) = json 201 (TaskDoc t)
        \<and> tasks (snd (post_tasks L E s req)) = tasks s @ [t]
        \<and> users (snd (post_tasks L E s req)) = users s
        \<and> (wf_db s \<longrightarrow> task_id t \<notin> task_id ` set (tasks s)))"
proof (intro conjI impI)
  assume a: "authenticate L E req = Next req' \<and> falsy (body_text req)"
  then have "falsy (body_text req')" using authenticate_Next_fields(1) [of L E req req'] by simp
  with a show "post_tasks L E s req = (json 400 (Error ''Task text is required''), s)"
    by (simp add: post_tasks_def behind_authenticate_Next post_tasks_handler_empty)
next
  assume a: "authenticate L E req = Next req' \<and> body_text req = Some content \<and> content \<noteq> [] \<and> connected s
        \<and> t = \<lparr>task_id = next_id s, task_text = content, completed = False, userId = req_userId req'\<rparr>"
  then have b: "body_text req' = Some content" using authenticate_Next_fields(1) [of L E req req'] by simp
  from a have r: "post_tasks L E s req = post_tasks_handler L s req'"
    by (simp add: post_tasks_def behind_authenticate_Next)
  from a b show "fst (post_tasks L E s req) = json 201 (TaskDoc t)"
    unfolding r by (simp add: post_tasks_handler_saved)
  from a b show "tasks (snd (post_tasks L E s req)) = tasks s @ [t]"
    unfolding r by (simp add: post_tasks_handler_saved)
  from a b show "users (snd (post_tasks L E s req)) = users s"
    unfolding r by (simp add: post_tasks_handler_saved)
  assume "wf_db s"
  with a show "task_id t \<notin> task_id ` set (tasks s)"
    using wf_db_next_id_fresh [of s] by simp
qed

theorem create_postcondition_witness:
  "authenticate demo_libs (demo_env 2000) (demo_request (Some bob_token))
     = Next ((demo_request (Some bob_token))\<lparr>req_userId := Some 1\<rparr>)
   \<and> body_text (demo_request (Some bob_token)) = Some ''buy milk'' \<and> connected demo_db \<and> wf_db demo_db
   \<and> falsy (body_text ((demo_request (Some bob_token))\<lparr>body_text := Some ''''\<rparr>))
   \<and> post_tasks demo_libs (demo_env 2000) demo_db ((demo_request (Some bob_token))\<lparr>body_text := Some ''''\<rparr>)
       = (json 400 (Error ''Task text is required''), demo_db)
   \<and> fst (post_tasks demo_libs (demo_env 2000) demo_db (demo_request (Some bob_token)))
       = json 201 (TaskDoc \<lparr>task_id = 4, task_text = ''buy milk'', completed = False, userId = Some 1\<rparr>)
   \<and> tasks (snd (post_tasks demo_libs (demo_env 2000) demo_db (demo_request (Some bob_token))))
       = tasks demo_db @ [\<lparr>task_id = 4, task_text = ''buy milk'', completed = False, userId = Some 1\<rparr>]"
proof -
  let ?r = "demo_request (Some bob_token)"
  let ?e = "?r\<lparr>body_text := Some ''''\<rparr>"
  let ?t = "\<lparr>task_id = 4, task_text = ''buy milk'', completed = False, userId = Some 1\<rparr>"
  have v: "jwt_verify demo_libs bob_token (SECRET_KEY (demo_env 2000)) (clock (demo_env 2000))
             = Inr (demo_payload (Some 1))"
    by (simp add: jwt_verify_def SECRET_KEY_def falsy_def) (simp add: demo_defs)
  have a: "authenticate demo_libs (demo_env 2000) ?r = Next (?r\<lparr>req_userId := Some 1\<rparr>)"
    by (simp add: authenticate_eq falsy_def str_def demo_request_def v)
       (simp add: bob_token_def demo_payload_def)
  have a': "authenticate demo_libs (demo_env 2000) ?e = Next (?e\<lparr>req_userId := Some 1\<rparr>)"
    by (simp add: authenticate_eq falsy_def str_def demo_request_def v)
       (simp add: bob_token_def demo_payload_def)
  have b: "body_text ?r = Some ''buy milk''" "''buy milk'' \<noteq> []"
    by (simp_all add: demo_request_def)
  have c: "connected demo_db" by (simp add: demo_db_def)
  have f: "falsy (body_text ?e)" by (simp add: falsy_def)
  have t: "?t = \<lparr>task_id = next_id demo_db, task_text = ''buy milk'', completed = False,
                  userId = req_userId (?r\<lparr>req_userId := Some 1\<rparr>)\<rparr>"
    by (simp add: demo_db_def)
  note P1 = create_postcondition [where L = demo_libs and E = "demo_env 2000" and req = ?e
      and req' = "?e\<lparr>req_userId := Some 1\<rparr>" and s = demo_db]
  note P2 = create_postcondition [where L = demo_libs and E = "demo_env 2000" and req = ?r
      and req' = "?r\<lparr>req_userId := Some 1\<rparr>" and s = demo_db and content = "''buy milk''" and t = "?t"]
  from P1 a' f have 1: "post_tasks demo_libs (demo_env 2000) demo_db ?e
       = (json 400 (Error ''Task text is required''), demo_db)"
    by blast
  from P2 a b c t have 2: "fst (post_tasks demo_libs (demo_env 2000) demo_db ?r) = json 201 (TaskDoc ?t)"
    "tasks (snd (post_tasks demo_libs (demo_env 2000) demo_db ?r)) = tasks demo_db @ [?t]"
    by blast+
  from a b c f wf_db_demo 1 2 show ?thesis by simp
qed


subsection \<open>Effects of the routes on the store\<close>

lemma register_catch_status: "status (register_catch err) \<noteq> 201"
  by (simp add: register_catch_def)

lemma post_register_effect:
  assumes "post_register L E s req = (res, s')"
  shows "(status res \<noteq> 201 \<longrightarrow> users s' = users s) \<and> tasks s' = tasks s
       \<and> (\<exists>cs. calls s' = calls s @ cs \<and> length (filter is_write cs) \<le> 1)"
proof (cases "falsy_json (body_username req) \<or> falsy_json (body_password req)")
  case True
  with assms show ?thesis by (simp add: post_register_def)
next
  case nf: False
  show ?thesis
  proof (cases "bcrypt_hash_js L (js_value (body_password req)) (salt E)")
    case (Inl err)
    with assms nf have "s' = s" by (auto simp: post_register_def)
    then show ?thesis by simp
  next
    case (Inr hashed)
    obtain r t where sv: "User_save L (js_value (body_username req)) hashed s = (r, t)"
      by (cases "User_save L (js_value (body_username req)) hashed s")
    from assms nf Inr sv have st: "s' = t"
      by (cases r) (simp_all add: post_register_def)
    from assms nf Inr sv have rs: "\<And>err. r = Inl err \<Longrightarrow> res = register_catch err"
      by (simp add: post_register_def)
    from User_save_effect [OF sv] show ?thesis
    proof (elim disjE exE conjE)
      fix err
      assume "r = Inl err" and "t = called (User_save_op (js_value (body_username req))) s"
      with st show ?thesis by simp
    next
      fix name
      assume r: "r = Inr \<lparr>user_id = next_id s, username = name, password = hashed\<rparr>"
        and t: "t = called (User_save_op (js_value (body_username req)))
                      (s\<lparr>users := users s @ [\<lparr>user_id = next_id s, username = name,
                                                  password = hashed\<rparr>],
                         next_id := Suc (next_id s)\<rparr>)"
      from assms nf Inr sv r have "status res = 201" by (auto simp: post_register_def)
      with st t show ?thesis by simp
    qed
  qed
qed

lemma post_login_effect:
  assumes "post_login L E s req = (res, s')"
  shows "users s' = users s \<and> tasks s' = tasks s
       \<and> (\<exists>cs. calls s' = calls s @ cs \<and> \<not> list_ex is_write cs)"
proof (cases "falsy_json (body_username req) \<or> falsy_json (body_password req)")
  case True
  with assms show ?thesis by (simp add: post_login_def)
next
  case nf: False
  obtain r t where fo: "User_findOne L (js_value (body_username req)) s = (r, t)"
    by (cases "User_findOne L (js_value (body_username req)) s")
  from User_findOne_effect [of L "js_value (body_username req)" s] fo
  have t: "t = called (User_findOne_op (js_value (body_username req))) s" by simp
  from assms nf fo have "s' = t"
    by (auto simp: post_login_def split: sum.splits option.splits bool.splits)
  with t show ?thesis by simp
qed

lemma get_tasks_handler_effect:
  assumes "get_tasks_handler L s req = (res, s')"
  shows "users s' = users s \<and> tasks s' = tasks s
       \<and> (\<exists>cs. calls s' = calls s @ cs \<and> \<not> list_ex is_write cs)"
  using assms
  by (auto simp: get_tasks_handler_def Task_find_def split: if_splits)

lemma post_tasks_handler_effect:
  assumes "post_tasks_handler L s req = (res, s')"
  shows "users s' = users s \<and> (status res \<noteq> 201 \<longrightarrow> tasks s' = tasks s)
       \<and> (\<exists>cs. calls s' = calls s @ cs \<and> length (filter is_write cs) \<le> 1)"
  using assms
  by (auto simp: post_tasks_handler_def Task_save_def Let_def split: if_splits)

lemma delete_tasks_handler_effect:
  assumes "delete_tasks_handler L s req = (res, s')"
  shows "users s' = users s \<and> (status res \<noteq> 200 \<longrightarrow> tasks s' = tasks s)
       \<and> (\<exists>cs. calls s' = calls s @ cs \<and> length (filter is_write cs) \<le> 1)"
  using assms
  by (auto simp: delete_tasks_handler_def Task_findOneAndDelete_def split: if_splits option.splits)

lemma behind_authenticate_cases:
  assumes "behind_authenticate L E handler s req = (res, s')"
  obtains "s' = s" and "status res = 401" | req' where "handler s req' = (res, s')"
proof (cases "authenticate L E req")
  case (Answered r)
  with assms have "s' = s" and "res = r" by (simp_all add: behind_authenticate_def)
  moreover from Answered have "status r = 401" by (auto dest: authenticate_Answered)
  ultimately show ?thesis using that by simp
next
  case (Next req')
  with assms have "handler s req' = (res, s')" by (simp add: behind_authenticate_def)
  then show ?thesis using that by simp
qed

lemma get_tasks_effect:
  assumes "get_tasks L E s req = (res, s')"
  shows "users s' = users s \<and> tasks s' = tasks s
       \<and> (\<exists>cs. calls s' = calls s @ cs \<and> \<not> list_ex is_write cs)"
proof -
  from assms have "behind_authenticate L E (get_tasks_handler L) s req = (res, s')"
    by (simp add: get_tasks_def)
  then show ?thesis
  proof (cases rule: behind_authenticate_cases)
    case 1
    then show ?thesis by simp
  next
    case (2 req')
    then show ?thesis by (rule get_tasks_handler_effect)
  qed
qed

lemma post_tasks_effect:
  assumes "post_tasks L E s req = (res, s')"
  shows "users s' = users s \<and> (status res \<noteq> 201 \<longrightarrow> tasks s' = tasks s)
       \<and> (\<exists>cs. calls s' = calls s @ cs \<and> length (filter is_write cs) \<le> 1)"
proof -
  from assms have "behind_authenticate L E (post_tasks_handler L) s req = (res, s')"
    by (simp add: post_tasks_def)
  then show ?thesis
  proof (cases rule: behind_authenticate_cases)
    case 1
    then show ?thesis by simp
  next
    case (2 req')
    then show ?thesis by (rule post_tasks_handler_effect)
  qed
qed

lemma delete_tasks_effect:
  assumes "delete_tasks L E s req = (res, s')"
  shows "users s' = users s \<and> (status res \<noteq> 200 \<longrightarrow> tasks s' = tasks s)
       \<and> (\<exists>cs. calls s' = calls s @ cs \<and> length (filter is_write cs) \<le> 1)"
proof -
  from assms have "behind_authenticate L E (delete_tasks_handler L) s req = (res, s')"
    by (simp add: delete_tasks_def)
  then show ?thesis
  proof (cases rule: behind_authenticate_cases)
    case 1
    then show ?thesis by simp
  next
    case (2 req')
    then show ?thesis by (rule delete_tasks_handler_effect)
  qed
qed

text \<open>
  Claim C9 (error atomicity). Whichever of the five routes answers, if the status is 400,
  401 or 404 then users and tasks are as they were before the request, and the request
  made at most one writing call on the store; Login and the listing leave users and
  tasks as they were whatever they answer, and make no writing call at all.
\<close>

theorem error_atomicity:
  "((res, s') \<in> {post_register L E s req, post_login L E s req, get_tasks L E s req,
                  post_tasks L E s req, delete_tasks L E s req} \<longrightarrow>
      (status res \<in> {400, 401, 404} \<longrightarrow> users s' = users s \<and> tasks s' = tasks s)
      \<and> (\<exists>cs. calls s' = calls s @ cs \<and> length (filter is_write cs) \<le> 1))
   \<and> ((res, s') \<in> {post_login L E s req, get_tasks L E s req} \<longrightarrow>
      users s' = users s \<and> tasks s' = tasks s
      \<and> (\<exists>cs. calls s' = calls s @ cs \<and> \<not> list_ex is_write cs))"
proof (intro conjI impI)
  assume "(res, s') \<in> {post_login L E s req, get_tasks L E s req}"
  then have "users s' = users s \<and> tasks s' = tasks s
      \<and> (\<exists>cs. calls s' = calls s @ cs \<and> \<not> list_ex is_write cs)"
    using post_login_effect [of L E s req res s'] get_tasks_effect [of L E s req res s'] by auto
  then show "users s' = users s" "tasks s' = tasks s"
    "\<exists>cs. calls s' = calls s @ cs \<and> \<not> list_ex is_write cs"
    by simp_all
next
  assume a: "(res, s') \<in> {post_register L E s req, post_login L E s req, get_tasks L E s req,
                  post_tasks L E s req, delete_tasks L E s req}"
  then consider "post_register L E s req = (res, s')" | "post_login L E s req = (res, s')"
    | "get_tasks L E s req = (res, s')" | "post_tasks L E s req = (res, s')"
    | "delete_tasks L E s req = (res, s')"
    by auto
  then have "(status res \<in> {400, 401, 404} \<longrightarrow> users s' = users s \<and> tasks s' = tasks s)
      \<and> (\<exists>cs. calls s' = calls s @ cs \<and> length (filter is_write cs) \<le> 1)"
  proof cases
    case 1
    from post_register_effect [OF 1] show ?thesis by auto
  next
    case 2
    from post_login_effect [OF 2] show ?thesis by (auto simp: list_ex_iff)
  next
    case 3
    from get_tasks_effect [OF 3] show ?thesis by (auto simp: list_ex_iff)
  next
    case 4
    from post_tasks_effect [OF 4] show ?thesis by auto
  next
    case 5
    from delete_tasks_effect [OF 5] show ?thesis by auto
  qed
  then show "status res \<in> {400, 401, 404} \<Longrightarrow> users s' = users s"
    "status res \<in> {400, 401, 404} \<Longrightarrow> tasks s' = tasks s"
    "\<exists>cs. calls s' = calls s @ cs \<and> length (filter is_write cs) \<le> 1"
    by simp_all
qed

lemma jwt_verify_demo:
  "jwt_verify demo_libs alice_token (SECRET_KEY (demo_env 2000)) (clock (demo_env 2000))
     = Inr (demo_payload (Some 0))"
  "jwt_verify demo_libs bob_token (SECRET_KEY (demo_env 2000)) (clock (demo_env 2000))
     = Inr (demo_payload (Some 1))"
  by (simp_all add: jwt_verify_def SECRET_KEY_def falsy_def) (simp_all add: demo_defs)

lemma authenticate_demo:
  "headers_authorization req = Some alice_token \<Longrightarrow>
     authenticate demo_libs (demo_env 2000) req = Next (req\<lparr>req_userId := Some 0\<rparr>)"
  "headers_authorization req = Some bob_token \<Longrightarrow>
     authenticate demo_libs (demo_env 2000) req = Next (req\<lparr>req_userId := Some 1\<rparr>)"
  by (simp_all add: authenticate_eq falsy_def str_def jwt_verify_demo)
     (simp_all add: alice_token_def bob_token_def demo_payload_def)

lemma delete_tasks_demo:
  "delete_tasks demo_libs (demo_env 2000) demo_db
     (demo_delete (Some alice_token) ''000000000000000000000003'')
   = (json 404 (Error ''Task not found''),
      called (Task_findOneAndDelete_op ''000000000000000000000003'' (Some 0)) demo_db)"
proof -
  let ?r = "demo_delete (Some alice_token) ''000000000000000000000003''"
  have "headers_authorization ?r = Some alice_token" by (simp add: demo_delete_def)
  then have "authenticate demo_libs (demo_env 2000) ?r = Next (?r\<lparr>req_userId := Some 0\<rparr>)"
    by (rule authenticate_demo)
  then have "delete_tasks demo_libs (demo_env 2000) demo_db ?r
               = delete_tasks_handler demo_libs demo_db (?r\<lparr>req_userId := Some 0\<rparr>)"
    by (simp add: delete_tasks_def behind_authenticate_Next)
  also have "\<dots> = (json 404 (Error ''Task not found''),
      called (Task_findOneAndDelete_op ''000000000000000000000003'' (Some 0)) demo_db)"
    by (simp add: delete_tasks_handler_def Task_findOneAndDelete_def owner_matches_def
          demo_delete_def demo_libs_def demo_db_def)
  finally show ?thesis .
qed

theorem error_atomicity_witness:
  "status (fst (delete_tasks demo_libs (demo_env 2000) demo_db
                 (demo_delete (Some alice_token) ''000000000000000000000003''))) \<in> {400, 401, 404}
   \<and> users (snd (delete_tasks demo_libs (demo_env 2000) demo_db
                 (demo_delete (Some alice_token) ''000000000000000000000003''))) = users demo_db
   \<and> tasks (snd (delete_tasks demo_libs (demo_env 2000) demo_db
                 (demo_delete (Some alice_token) ''000000000000000000000003''))) = tasks demo_db
   \<and> users (snd (post_login demo_libs (demo_env 1000) demo_db (demo_login ''alice'' ''pw1'')))
       = users demo_db
   \<and> tasks (snd (post_login demo_libs (demo_env 1000) demo_db (demo_login ''alice'' ''pw1'')))
       = tasks demo_db"
proof -
  let ?d = "delete_tasks demo_libs (demo_env 2000) demo_db
              (demo_delete (Some alice_token) ''000000000000000000000003'')"
  let ?l = "post_login demo_libs (demo_env 1000) demo_db (demo_login ''alice'' ''pw1'')"
  have a: "status (fst ?d) \<in> {400, 401, 404}"
    by (simp add: delete_tasks_demo)
  have m: "(fst ?d, snd ?d) \<in> {post_register demo_libs (demo_env 2000) demo_db
                (demo_delete (Some alice_token) ''000000000000000000000003''),
              post_login demo_libs (demo_env 2000) demo_db
                (demo_delete (Some alice_token) ''000000000000000000000003''),
              get_tasks demo_libs (demo_env 2000) demo_db
                (demo_delete (Some alice_token) ''000000000000000000000003''),
              post_tasks demo_libs (demo_env 2000) demo_db
                (demo_delete (Some alice_token) ''000000000000000000000003''), ?d}"
    by simp
  have n: "(fst ?l, snd ?l) \<in> {?l, get_tasks demo_libs (demo_env 1000) demo_db
                                      (demo_login ''alice'' ''pw1'')}"
    by simp
  from error_atomicity [where res = "fst ?d" and s' = "snd ?d" and L = demo_libs
      and E = "demo_env 2000" and s = demo_db
      and req = "demo_delete (Some alice_token) ''000000000000000000000003''"] a m
  have 1: "users (snd ?d) = users demo_db \<and> tasks (snd ?d) = tasks demo_db"
    by blast
  from error_atomicity [where res = "fst ?l" and s' = "snd ?l" and L = demo_libs
      and E = "demo_env 1000" and s = demo_db and req = "demo_login ''alice'' ''pw1''"] n
  have 2: "users (snd ?l) = users demo_db \<and> tasks (snd ?l) = tasks demo_db"
    by blast
  from a 1 2 show ?thesis by simp
qed


subsection \<open>Create, then list\<close>

lemma owner_matches_Some_fun: "owner_matches L (Some a) = (\<lambda>x. userId x = Some a)"
  by (rule ext) (simp add: owner_matches_def)

lemma get_tasks_handler_Some:
  "connected s \<Longrightarrow> req_userId req = Some a \<Longrightarrow>
     get_tasks_handler L s req
       = (json 200 (TaskList (filter (\<lambda>x. userId x = Some a) (tasks s))),
          called (Task_find_op (Some a)) s)"
  by (simp add: get_tasks_handler_connected owner_matches_Some_fun)

text \<open>A Create that is answered 201 with a task: the store answered, and the task is the
  one appended to the tasks.\<close>

lemma post_tasks_handler_201:
  assumes "fst (post_tasks_handler L s req) = json 201 (TaskDoc t)"
  shows "connected s"
    and "t = \<lparr>task_id = next_id s, task_text = str (body_text req), completed = False,
               userId = req_userId req\<rparr>"
    and "snd (post_tasks_handler L s req)
           = called (Task_save_op (req_userId req))
               (s\<lparr>tasks := tasks s @ [t], next_id := Suc (next_id s)\<rparr>)"
  using assms
  by (auto simp: post_tasks_handler_def Task_save_def Let_def split: if_splits)

text \<open>
  Claim C7, as amended (Create, then List). After a Create by an authenticated owner has
  succeeded, answering 201 with the created task, the listing for the same owner
  succeeds and contains the created task, which is not completed; it holds exactly one
  more not completed task with the text of the created task than the listing for that
  owner held before the Create, and exactly one, the created task, when it held none
  before. Nothing is said of the order of the listing.
\<close>

theorem create_list_round_trip:
  assumes "authenticate L E req = Next req1" and "req_userId req1 = Some a"
    and "fst (post_tasks L E s req) = json 201 (TaskDoc t)"
    and "authenticate L E' req' = Next req2" and "req_userId req2 = Some a"
  shows "status (fst (get_tasks L E' (snd (post_tasks L E s req)) req')) = 200
       \<and> t \<in> set (listed (fst (get_tasks L E' (snd (post_tasks L E s req)) req')))
       \<and> \<not> completed t
       \<and> length (open_with_text (task_text t)
                   (listed (fst (get_tasks L E' (snd (post_tasks L E s req)) req'))))
           = Suc (length (open_with_text (task_text t) (listed (fst (get_tasks L E' s req')))))
       \<and> (open_with_text (task_text t) (listed (fst (get_tasks L E' s req'))) = [] \<longrightarrow>
            open_with_text (task_text t)
              (listed (fst (get_tasks L E' (snd (post_tasks L E s req)) req'))) = [t])"
proof -
  let ?own = "filter (\<lambda>x. userId x = Some a) (tasks s)"
  from assms(1) have r: "post_tasks L E s req = post_tasks_handler L s req1"
    by (simp add: post_tasks_def behind_authenticate_Next)
  from assms(3) have h: "fst (post_tasks_handler L s req1) = json 201 (TaskDoc t)"
    unfolding r .
  note c = post_tasks_handler_201(1) [OF h]
  from post_tasks_handler_201(2) [OF h] assms(2)
  have t: "userId t = Some a" "\<not> completed t" by simp_all
  from post_tasks_handler_201(3) [OF h] assms(2)
  have p: "snd (post_tasks L E s req)
             = called (Task_save_op (Some a)) (s\<lparr>tasks := tasks s @ [t], next_id := Suc (next_id s)\<rparr>)"
    unfolding r by simp
  from assms(4) have g: "get_tasks L E' s1 req' = get_tasks_handler L s1 req2" for s1
    by (simp add: get_tasks_def behind_authenticate_Next)
  from c assms(5) have before: "fst (get_tasks L E' s req') = json 200 (TaskList ?own)"
    unfolding g by (simp add: get_tasks_handler_Some)
  from c assms(5) t
  have after: "fst (get_tasks L E' (snd (post_tasks L E s req)) req')
                 = json 200 (TaskList (?own @ [t]))"
    unfolding p g by (simp add: get_tasks_handler_Some)
  have lb: "listed (fst (get_tasks L E' s req')) = ?own"
    unfolding before by (simp add: listed_def)
  have la: "listed (fst (get_tasks L E' (snd (post_tasks L E s req)) req')) = ?own @ [t]"
    unfolding after by (simp add: listed_def)
  from t have o: "open_with_text (task_text t) (?own @ [t])
                    = open_with_text (task_text t) ?own @ [t]"
    by (simp add: open_with_text_def)
  from after have "status (fst (get_tasks L E' (snd (post_tasks L E s req)) req')) = 200"
    by simp
  with t show ?thesis unfolding la lb o by simp
qed

theorem create_list_round_trip_witness:
  "authenticate demo_libs (demo_env 2000) (demo_request (Some bob_token))
       = Next ((demo_request (Some bob_token))\<lparr>req_userId := Some 1\<rparr>)
   \<and> fst (post_tasks demo_libs (demo_env 2000) demo_db (demo_request (Some bob_token)))
       = json 201 (TaskDoc \<lparr>task_id = 4, task_text = ''buy milk'', completed = False, userId = Some 1\<rparr>)
   \<and> open_with_text ''buy milk''
         (listed (fst (get_tasks demo_libs (demo_env 2000) demo_db (demo_request (Some bob_token)))))
       = []
   \<and> status (fst (get_tasks demo_libs (demo_env 2000)
             (snd (post_tasks demo_libs (demo_env 2000) demo_db (demo_request (Some bob_token))))
             (demo_request (Some bob_token)))) = 200
   \<and> length (open_with_text ''buy milk''
         (listed (fst (get_tasks demo_libs (demo_env 2000)
             (snd (post_tasks demo_libs (demo_env 2000) demo_db (demo_request (Some bob_token))))
             (demo_request (Some bob_token)))))) = 1
   \<and> open_with_text ''buy milk''
         (listed (fst (get_tasks demo_libs (demo_env 2000)
             (snd (post_tasks demo_libs (demo_env 2000) demo_db (demo_request (Some bob_token))))
             (demo_request (Some bob_token)))))
       = [\<lparr>task_id = 4, task_text = ''buy milk'', completed = False, userId = Some 1\<rparr>]"
proof -
  let ?r = "demo_request (Some bob_token)"
  let ?t = "\<lparr>task_id = 4, task_text = ''buy milk'', completed = False, userId = Some 1\<rparr>"
  have h: "headers_authorization ?r = Some bob_token" by (simp add: demo_request_def)
  have a: "authenticate demo_libs (demo_env 2000) ?r = Next (?r\<lparr>req_userId := Some 1\<rparr>)"
    using h by (rule authenticate_demo)
  have u: "req_userId (?r\<lparr>req_userId := Some 1\<rparr>) = Some 1" by simp
  have p: "fst (post_tasks demo_libs (demo_env 2000) demo_db ?r) = json 201 (TaskDoc ?t)"
    by (simp add: post_tasks_def behind_authenticate_def a post_tasks_handler_def Task_save_def
          falsy_def str_def Let_def)
       (simp add: demo_request_def demo_db_def)
  have e: "open_with_text (task_text ?t)
             (listed (fst (get_tasks demo_libs (demo_env 2000) demo_db ?r))) = []"
    by (simp add: get_tasks_def behind_authenticate_def a get_tasks_handler_def Task_find_def
          owner_matches_def demo_db_def listed_def open_with_text_def)
  note R = create_list_round_trip [OF a u p a u]
  from R e have 1: "open_with_text (task_text ?t)
          (listed (fst (get_tasks demo_libs (demo_env 2000)
                          (snd (post_tasks demo_libs (demo_env 2000) demo_db ?r)) ?r))) = [?t]"
    by blast
  from R have 2: "status (fst (get_tasks demo_libs (demo_env 2000)
                          (snd (post_tasks demo_libs (demo_env 2000) demo_db ?r)) ?r)) = 200"
    by blast
  from a p e 1 2 show ?thesis by simp
qed

text \<open>
  The counterexample to C7 as it is stated: for an owner who already has such a task,
  after the Create has succeeded the listing holds two not completed tasks with text
  ``buy milk''.
\<close>

theorem create_list_round_trip_counterexample:
  "fst (post_tasks demo_libs (demo_env 2000) demo_db (demo_request (Some alice_token)))
     = json 201 (TaskDoc \<lparr>task_id = 4, task_text = ''buy milk'', completed = False, userId = Some 0\<rparr>)
   \<and> status (fst (get_tasks demo_libs (demo_env 2000)
             (snd (post_tasks demo_libs (demo_env 2000) demo_db (demo_request (Some alice_token))))
             (demo_request (Some alice_token)))) = 200
   \<and> length (open_with_text ''buy milk''
         (listed (fst (get_tasks demo_libs (demo_env 2000)
             (snd (post_tasks demo_libs (demo_env 2000) demo_db (demo_request (Some alice_token))))
             (demo_request (Some alice_token)))))) = 2"
proof -
  let ?r = "demo_request (Some alice_token)"
  have h: "headers_authorization ?r = Some alice_token" by (simp add: demo_request_def)
  have a: "authenticate demo_libs (demo_env 2000) ?r = Next (?r\<lparr>req_userId := Some 0\<rparr>)"
    using h by (rule authenticate_demo)
  have p: "post_tasks demo_libs (demo_env 2000) demo_db ?r
     = (json 201 (TaskDoc \<lparr>task_id = 4, task_text = ''buy milk'', completed = False, userId = Some 0\<rparr>),
        called (Task_save_op (Some 0))
          (demo_db\<lparr>tasks := tasks demo_db @ [\<lparr>task_id = 4, task_text = ''buy milk'',
                                               completed = False, userId = Some 0\<rparr>],
                    next_id := Suc (next_id demo_db)\<rparr>))"
    by (simp add: post_tasks_def behind_authenticate_def a post_tasks_handler_def Task_save_def
          falsy_def str_def Let_def)
       (simp add: demo_request_def demo_db_def)
  show ?thesis
    unfolding p
    by (simp add: get_tasks_def behind_authenticate_def a get_tasks_handler_def Task_find_def
          owner_matches_def demo_db_def listed_def open_with_text_def)
qed

subsection \<open>Ownership\<close>

lemma wf_db_task_id_inj:
  assumes "wf_db s" and "x \<in> set (tasks s)" and "t \<in> set (tasks s)" and "task_id x = task_id t"
  shows "x = t"
proof -
  from assms(1) have "inj_on task_id (set (tasks s))"
    by (simp add: wf_db_def distinct_map)
  with assms(2-4) show ?thesis by (auto dest: inj_onD)
qed

lemma delete_tasks_handler_other_owner:
  assumes "wf_db s" and "connected s" and "t \<in> set (tasks s)" and "userId t = Some b"
    and "req_userId req = Some a" and "a \<noteq> b"
    and "castObjectId L (params_id req) = Some (task_id t)"
  shows "delete_tasks_handler L s req
           = (json 404 (Error ''Task not found''),
              called (Task_findOneAndDelete_op (params_id req) (Some a)) s)"
proof -
  have "find (\<lambda>x. task_id x = task_id t \<and> owner_matches L (Some a) x) (tasks s) = None"
  proof (rule ccontr)
    assume "find (\<lambda>x. task_id x = task_id t \<and> owner_matches L (Some a) x) (tasks s) \<noteq> None"
    then obtain x where x: "x \<in> set (tasks s)" "task_id x = task_id t" "userId x = Some a"
      by (auto simp: find_None_iff owner_matches_def)
    from assms(1) x(1) assms(3) x(2) have "x = t" by (rule wf_db_task_id_inj)
    with x(3) assms(4,6) show False by simp
  qed
  with assms(2,5,7) show ?thesis
    by (simp add: delete_tasks_handler_def Task_findOneAndDelete_def)
qed

text \<open>
  Claim C1 (ownership isolation). Take a token issued by Login to user A, whose payload
  the library reads back, presented within the hour under the same secret to a store
  that answers and satisfies \<open>wf_db\<close>, and a task \<open>t\<close> in the store owned by another
  user B. Then the listing is answered 200 with tasks of A only, \<open>t\<close> not among them;
  and deleting the id of \<open>t\<close> is answered 404 ``Task not found'', the tasks are as
  they were and \<open>t\<close> is still in the store.
\<close>

theorem ownership_isolation:
  assumes "wf_db s" and "connected s"
    and "fst (post_login L EA sA rA) = json 200 (Token tkA)"
    and "fst (User_findOne L (js_value (body_username rA)) sA) = Inr (Some uA)"
    and "jws_round_trip L \<lparr>pl_userId = Some (user_id uA), pl_iat = Some (JNum (real (clock EA))),
                            pl_exp = Some (JNum (real (clock EA + 3600))), pl_nbf = None\<rparr>
           (SECRET_KEY EA)"
    and "SECRET_KEY E = SECRET_KEY EA" and "clock E < clock EA + 3600"
    and "headers_authorization req = Some tkA"
    and "t \<in> set (tasks s)" and "userId t = Some b" and "b \<noteq> user_id uA"
  shows "(\<exists>ts. fst (get_tasks L E s req) = json 200 (TaskList ts) \<and> t \<notin> set ts
               \<and> (\<forall>x \<in> set ts. userId x = Some (user_id uA)))
       \<and> (castObjectId L (params_id req) = Some (task_id t) \<longrightarrow>
            fst (delete_tasks L E s req) = json 404 (Error ''Task not found'')
            \<and> tasks (snd (delete_tasks L E s req)) = tasks s
            \<and> t \<in> set (tasks (snd (delete_tasks L E s req))))"
proof -
  let ?p = "\<lparr>pl_userId = Some (user_id uA), pl_iat = Some (JNum (real (clock EA))),
             pl_exp = Some (JNum (real (clock EA + 3600))), pl_nbf = None\<rparr>"
  from post_login_200 [OF assms(3)] assms(4) have tk: "tkA = jws_sign L ?p (SECRET_KEY EA)"
    by auto
  have "authenticate L E req =
           (if real (clock EA + 3600) \<le> real (clock E)
            then Answered (json 401 (Error ''Invalid token''))
            else Next (req\<lparr>req_userId := pl_userId ?p\<rparr>))"
    using assms(5) assms(8) [unfolded tk] assms(6) by (rule authenticate_round_trip) simp_all
  with assms(7) have a: "authenticate L E req = Next (req\<lparr>req_userId := Some (user_id uA)\<rparr>)"
    by simp
  let ?req = "req\<lparr>req_userId := Some (user_id uA)\<rparr>"
  from a assms(2)
  have l: "fst (get_tasks L E s req)
             = json 200 (TaskList (filter (\<lambda>x. userId x = Some (user_id uA)) (tasks s)))"
    by (simp add: get_tasks_def behind_authenticate_Next get_tasks_handler_Some)
  from assms(10,11) have n: "t \<notin> set (filter (\<lambda>x. userId x = Some (user_id uA)) (tasks s))"
    by simp
  have list: "\<exists>ts. fst (get_tasks L E s req) = json 200 (TaskList ts) \<and> t \<notin> set ts
               \<and> (\<forall>x \<in> set ts. userId x = Some (user_id uA))"
    using l n by (intro exI [of _ "filter (\<lambda>x. userId x = Some (user_id uA)) (tasks s)"]) simp
  have del: "fst (delete_tasks L E s req) = json 404 (Error ''Task not found'')
            \<and> tasks (snd (delete_tasks L E s req)) = tasks s
            \<and> t \<in> set (tasks (snd (delete_tasks L E s req)))"
    if c: "castObjectId L (params_id req) = Some (task_id t)"
  proof -
    from c have c': "castObjectId L (params_id ?req) = Some (task_id t)" by simp
    have u: "req_userId ?req = Some (user_id uA)" by simp
    from assms(11) have ne: "user_id uA \<noteq> b" by simp
    from a have "delete_tasks L E s req = delete_tasks_handler L s ?req"
      by (simp add: delete_tasks_def behind_authenticate_Next)
    also from delete_tasks_handler_other_owner [OF assms(1,2,9,10) u ne c']
    have "\<dots> = (json 404 (Error ''Task not found''),
              called (Task_findOneAndDelete_op (params_id ?req) (Some (user_id uA))) s)" .
    finally show ?thesis using assms(9) by simp
  qed
  from list del show ?thesis by blast
qed

theorem ownership_isolation_witness:
  "wf_db demo_db \<and> connected demo_db
   \<and> fst (post_login demo_libs (demo_env 1000) demo_db (demo_login ''alice'' ''pw1''))
       = json 200 (Token alice_token)
   \<and> \<lparr>task_id = 3, task_text = ''call home'', completed = False, userId = Some 1\<rparr> \<in> set (tasks demo_db)
   \<and> castObjectId demo_libs ''000000000000000000000003'' = Some 3
   \<and> (\<exists>ts. fst (get_tasks demo_libs (demo_env 2000) demo_db
                   (demo_delete (Some alice_token) ''000000000000000000000003''))
               = json 200 (TaskList ts)
             \<and> \<lparr>task_id = 3, task_text = ''call home'', completed = False, userId = Some 1\<rparr> \<notin> set ts)
   \<and> fst (delete_tasks demo_libs (demo_env 2000) demo_db
             (demo_delete (Some alice_token) ''000000000000000000000003''))
       = json 404 (Error ''Task not found'')
   \<and> \<lparr>task_id = 3, task_text = ''call home'', completed = False, userId = Some 1\<rparr>
       \<in> set (tasks (snd (delete_tasks demo_libs (demo_env 2000) demo_db
                            (demo_delete (Some alice_token) ''000000000000000000000003''))))"
proof -
  let ?u = "\<lparr>user_id = 0, username = ''alice'', password = ''$s4lt$pw1''\<rparr>"
  let ?p = "\<lparr>pl_userId = Some (user_id ?u), pl_iat = Some (JNum (real (clock (demo_env 1000)))),
             pl_exp = Some (JNum (real (clock (demo_env 1000) + 3600))), pl_nbf = None\<rparr>"
  let ?t = "\<lparr>task_id = 3, task_text = ''call home'', completed = False, userId = Some 1\<rparr>"
  let ?r = "demo_delete (Some alice_token) ''000000000000000000000003''"
  have c: "connected demo_db" by (simp add: demo_db_def)
  have f: "fst (User_findOne demo_libs (js_value (body_username (demo_login ''alice'' ''pw1'')))
                  demo_db) = Inr (Some ?u)"
    by (simp add: User_findOne_def username_filter_def js_value_def demo_login_def
          demo_login_json_def demo_db_def)
  have k: "SECRET_KEY (demo_env n) = ''your_secret_key''" for n
    by (simp add: SECRET_KEY_def falsy_def demo_env_def)
  have p: "?p = demo_payload (Some 0)"
    by (simp add: demo_payload_def demo_env_def)
  have s: "jws_sign demo_libs (demo_payload (Some 0)) ''your_secret_key'' = alice_token"
    by (simp add: demo_libs_def demo_payload_def)
  have rt: "jws_round_trip demo_libs ?p (SECRET_KEY (demo_env 1000))"
    unfolding p k jws_round_trip_def s by (simp add: demo_libs_def)
  have ks: "SECRET_KEY (demo_env 2000) = SECRET_KEY (demo_env 1000)" by (simp add: k)
  have cl: "clock (demo_env 2000) < clock (demo_env 1000) + 3600" by (simp add: demo_env_def)
  have h: "headers_authorization ?r = Some alice_token" by (simp add: demo_delete_def)
  have m: "?t \<in> set (tasks demo_db)" by (simp add: demo_db_def)
  have o: "userId ?t = Some 1" "1 \<noteq> user_id ?u" by simp_all
  have ca: "castObjectId demo_libs (params_id ?r) = Some (task_id ?t)"
    by (simp add: demo_libs_def demo_delete_def)
  from ownership_isolation [OF wf_db_demo c post_login_demo f rt ks cl h m o] ca
  have "(\<exists>ts. fst (get_tasks demo_libs (demo_env 2000) demo_db ?r) = json 200 (TaskList ts)
               \<and> ?t \<notin> set ts)
      \<and> fst (delete_tasks demo_libs (demo_env 2000) demo_db ?r) = json 404 (Error ''Task not found'')
      \<and> ?t \<in> set (tasks (snd (delete_tasks demo_libs (demo_env 2000) demo_db ?r)))"
    by blast
  moreover have "castObjectId demo_libs ''000000000000000000000003'' = Some 3"
    by (simp add: demo_libs_def)
  ultimately show ?thesis using wf_db_demo c post_login_demo m by simp
qed


subsection \<open>The scenario of the specification\<close>

text \<open>Register, login, create, list, delete, list, run on the empty store with the
  example library: 201, 200 with a token, 201 with the task, the task, 200, nothing.\<close>

lemma scenario_register:
  "post_register demo_libs (demo_env 1000) empty_db (demo_login ''alice'' ''pw1'')
     = (json 201 (Message ''User registered successfully''),
        called (User_save_op (JStr ''alice'')) registered_db)"
  by (simp add: post_register_def User_save_def cast_username_def bcrypt_hash_js_def
        falsy_json_def js_value_def called_def Let_def demo_login_def demo_login_json_def
        demo_libs_def demo_env_def empty_db_def registered_db_def)

lemma scenario_login:
  "post_login demo_libs (demo_env 1000) registered_db (demo_login ''alice'' ''pw1'')
     = (json 200 (Token alice_token),
        called (User_findOne_op (JStr ''alice'')) registered_db)"
  by (simp add: post_login_def User_findOne_def username_filter_def bcrypt_compare_js_def
        jwt_sign_def falsy_json_def js_value_def SECRET_KEY_default demo_login_def
        demo_login_json_def demo_libs_def demo_env_def registered_db_def)

lemma routes_demo_alice:
  assumes "headers_authorization req = Some alice_token"
  shows "get_tasks demo_libs (demo_env 2000) s req
           = get_tasks_handler demo_libs s (req\<lparr>req_userId := Some 0\<rparr>)"
    and "post_tasks demo_libs (demo_env 2000) s req
           = post_tasks_handler demo_libs s (req\<lparr>req_userId := Some 0\<rparr>)"
    and "delete_tasks demo_libs (demo_env 2000) s req
           = delete_tasks_handler demo_libs s (req\<lparr>req_userId := Some 0\<rparr>)"
  using authenticate_demo(1) [OF assms]
  by (simp_all add: get_tasks_def post_tasks_def delete_tasks_def behind_authenticate_Next)

lemma scenario_create:
  "post_tasks demo_libs (demo_env 2000) registered_db (demo_create (Some alice_token) ''x'')
     = (json 201 (TaskDoc \<lparr>task_id = 1, task_text = ''x'', completed = False, userId = Some 0\<rparr>),
        called (Task_save_op (Some 0))
          created_db)"
proof -
  have "headers_authorization (demo_create (Some alice_token) ''x'') = Some alice_token"
    by (simp add: demo_create_def)
  then show ?thesis
    by (simp add: routes_demo_alice post_tasks_handler_def Task_save_def Let_def
          falsy_def str_def demo_create_def registered_db_def created_db_def)
qed

lemma scenario_list_delete_list:
  shows "fst (get_tasks demo_libs (demo_env 2000) created_db (demo_delete (Some alice_token) []))
           = json 200 (TaskList [\<lparr>task_id = 1, task_text = ''x'', completed = False, userId = Some 0\<rparr>])"
    and "fst (delete_tasks demo_libs (demo_env 2000) created_db
                (demo_delete (Some alice_token) ''000000000000000000000001''))
           = json 200 (Message ''Task deleted successfully'')"
    and "fst (get_tasks demo_libs (demo_env 2000)
                (snd (delete_tasks demo_libs (demo_env 2000) created_db
                        (demo_delete (Some alice_token) ''000000000000000000000001'')))
                (demo_delete (Some alice_token) []))
           = json 200 (TaskList [])"
proof -
  have h: "headers_authorization (demo_delete (Some alice_token) i) = Some alice_token" for i
    by (simp add: demo_delete_def)
  note a = routes_demo_alice [OF h]
  show "fst (get_tasks demo_libs (demo_env 2000) created_db (demo_delete (Some alice_token) []))
           = json 200 (TaskList [\<lparr>task_id = 1, task_text = ''x'', completed = False, userId = Some 0\<rparr>])"
    by (simp add: a get_tasks_handler_def Task_find_def
          owner_matches_def created_db_def registered_db_def)
  have d: "delete_tasks demo_libs (demo_env 2000) created_db
             (demo_delete (Some alice_token) ''000000000000000000000001'')
           = (json 200 (Message ''Task deleted successfully''),
              called (Task_findOneAndDelete_op ''000000000000000000000001'' (Some 0))
                (created_db\<lparr>tasks := []\<rparr>))"
    unfolding a
    by (simp add: delete_tasks_handler_def
          Task_findOneAndDelete_def owner_matches_def created_db_def registered_db_def demo_libs_def
          demo_delete_def)
  then show "fst (delete_tasks demo_libs (demo_env 2000) created_db
                (demo_delete (Some alice_token) ''000000000000000000000001''))
           = json 200 (Message ''Task deleted successfully'')"
    by simp
  show "fst (get_tasks demo_libs (demo_env 2000)
                (snd (delete_tasks demo_libs (demo_env 2000) created_db
                        (demo_delete (Some alice_token) ''000000000000000000000001'')))
                (demo_delete (Some alice_token) []))
           = json 200 (TaskList [])"
    unfolding d
    by (simp add: a get_tasks_handler_def Task_find_def
          created_db_def registered_db_def)
qed

end
